theory Spec2Isabelle
  imports Complex_Main
begin

section \<open>Python values\<close>

text \<open>
  A Python \<open>str\<close> is a sequence of Unicode code points, so it is a list of naturals
  here and not a list of 8-bit characters. Constants of the source that are plain ASCII
  are written as HOL string literals and embedded with \<open>ascii\<close>.
\<close>

type_synonym codepoint = nat
type_synonym pystr = "codepoint list"

definition ascii :: "string \<Rightarrow> pystr" where
  "ascii cs = map of_char cs"

text \<open>
  A float is a finite double, read as the real number it denotes, or one of the three
  special values that \<open>json\<close> accepts (\<open>Infinity\<close>, \<open>-Infinity\<close>, \<open>NaN\<close>). The
  sensor only tests floats for truth and passes them on.
\<close>

datatype pyfloat = Finite real | PosInf | NegInf | NaN

text \<open>
  The values that \<open>response.json()\<close> and \<open>json.loads\<close> produce. The keys of a
  decoded object are only ever compared with the ASCII keys the sensor looks up, so a key
  is kept as its UTF-8 byte string; a lookup takes the first binding of the key.
\<close>

datatype pyval =
    PNone
  | PBool bool
  | PInt int
  | PFloat pyfloat
  | PStr pystr
  | PList "pyval list"
  | PDict "(string \<times> pyval) list"

datatype exn = KeyError | IndexError | TypeError | AttributeError

text \<open>Truth value testing, as in \<open>if result:\<close> and \<open>if stations:\<close>.\<close>

fun truthy :: "pyval \<Rightarrow> bool" where
  "truthy PNone = False"
| "truthy (PBool b) = b"
| "truthy (PInt i) = (i \<noteq> 0)"
| "truthy (PFloat f) = (f \<noteq> Finite 0)"
| "truthy (PStr s) = (s \<noteq> [])"
| "truthy (PList xs) = (xs \<noteq> [])"
| "truthy (PDict kvs) = (kvs \<noteq> [])"

text \<open>\<open>obj[key]\<close> with a string key: only a dict accepts it.\<close>

fun getitem :: "pyval \<Rightarrow> string \<Rightarrow> exn + pyval" where
  "getitem (PDict kvs) k = (case map_of kvs k of None \<Rightarrow> Inl KeyError | Some v \<Rightarrow> Inr v)"
| "getitem _ k = Inl TypeError"

text \<open>
  \<open>obj[0]\<close>: the first element of a list, the first character of a string, a
  \<open>KeyError\<close> on a decoded object (its keys are strings), a \<open>TypeError\<close> on the rest.
\<close>

fun getitem0 :: "pyval \<Rightarrow> exn + pyval" where
  "getitem0 (PList []) = Inl IndexError"
| "getitem0 (PList (x # xs)) = Inr x"
| "getitem0 (PStr []) = Inl IndexError"
| "getitem0 (PStr (c # cs)) = Inr (PStr [c])"
| "getitem0 (PDict kvs) = Inl KeyError"
| "getitem0 _ = Inl TypeError"

definition bind :: "exn + 'a \<Rightarrow> ('a \<Rightarrow> exn + 'b) \<Rightarrow> exn + 'b" where
  "bind r f = (case r of Inl e \<Rightarrow> Inl e | Inr v \<Rightarrow> f v)"

subsection \<open>\<open>str.title()\<close>\<close>

text \<open>
  The case tables of the Unicode Character Database are data of the interpreter, not of
  this program: they are a parameter. \<open>to_title_full\<close> and \<open>to_lower_full\<close> are the
  full case mappings (up to three code points).
\<close>

record casing =
  is_cased :: "codepoint \<Rightarrow> bool"
  is_case_ignorable :: "codepoint \<Rightarrow> bool"
  to_title_full :: "codepoint \<Rightarrow> pystr"
  to_lower_full :: "codepoint \<Rightarrow> pystr"

text \<open>
  CPython's \<open>handle_capital_sigma\<close>: U+03A3 becomes the final sigma U+03C2 when a cased
  character precedes it and none follows, case-ignorable characters skipped.
  \<open>preceding\<close> holds the characters to the left, nearest first.
\<close>

definition handle_capital_sigma :: "casing \<Rightarrow> pystr \<Rightarrow> pystr \<Rightarrow> codepoint" where
  "handle_capital_sigma ucd preceding following =
     (let final_sigma =
            (case dropWhile (is_case_ignorable ucd) preceding of
               [] \<Rightarrow> False | c # _ \<Rightarrow> is_cased ucd c);
          final_sigma =
            (if final_sigma
             then (case dropWhile (is_case_ignorable ucd) following of
                     [] \<Rightarrow> True | c # _ \<Rightarrow> \<not> is_cased ucd c)
             else False)
      in if final_sigma then 0x3C2 else 0x3C3)"

definition lower_ucs4 :: "casing \<Rightarrow> pystr \<Rightarrow> codepoint \<Rightarrow> pystr \<Rightarrow> pystr" where
  "lower_ucs4 ucd preceding c following =
     (if c = 0x3A3 then [handle_capital_sigma ucd preceding following] else to_lower_full ucd c)"

text \<open>
  CPython's \<open>do_title\<close>: a character is lower-cased when the one before it is cased
  and title-cased otherwise.
\<close>

fun do_title :: "casing \<Rightarrow> pystr \<Rightarrow> bool \<Rightarrow> pystr \<Rightarrow> pystr" where
  "do_title ucd preceding previous_is_cased [] = []"
| "do_title ucd preceding previous_is_cased (c # following) =
     (if previous_is_cased then lower_ucs4 ucd preceding c following else to_title_full ucd c)
     @ do_title ucd (c # preceding) (is_cased ucd c) following"

definition title :: "casing \<Rightarrow> pystr \<Rightarrow> pystr" where
  "title ucd s = do_title ucd [] False s"

text \<open>\<open>obj.title()\<close>: only a string has the method.\<close>

fun title_method :: "casing \<Rightarrow> pyval \<Rightarrow> exn + pyval" where
  "title_method ucd (PStr s) = Inr (PStr (title ucd s))"
| "title_method ucd _ = Inl AttributeError"

text \<open>\<open>a + b\<close> where \<open>a\<close> is a string: \<open>b\<close> must be one too.\<close>

fun str_add :: "pyval \<Rightarrow> pyval \<Rightarrow> exn + pyval" where
  "str_add (PStr a) (PStr b) = Inr (PStr (a @ b))"
| "str_add _ _ = Inl TypeError"

text \<open>
  The rows of the Unicode Character Database (version 14) for Basic Latin, for the German
  letters U+00C4, U+00D6, U+00DC, U+00DF, U+00E4, U+00F6, U+00FC, and for U+01F0 (j with
  caron) and U+030C (combining caron). Only strings over these code points are evaluated
  with it; the rows of every other code point are placeholders.
\<close>

definition ucd_excerpt :: casing where
  "ucd_excerpt =
     \<lparr> is_cased = (\<lambda>c. (0x41 \<le> c \<and> c \<le> 0x5A) \<or> (0x61 \<le> c \<and> c \<le> 0x7A)
                       \<or> c \<in> {0xC4, 0xD6, 0xDC, 0xDF, 0xE4, 0xF6, 0xFC, 0x1F0}),
       is_case_ignorable = (\<lambda>c. c \<in> {0x27, 0x2E, 0x3A, 0x5E, 0x60, 0x30C}),
       to_title_full = (\<lambda>c. if (0x61 \<le> c \<and> c \<le> 0x7A) \<or> c \<in> {0xE4, 0xF6, 0xFC} then [c - 32]
                            else if c = 0xDF then [0x53, 0x73]
                            else if c = 0x1F0 then [0x4A, 0x30C]
                            else [c]),
       to_lower_full = (\<lambda>c. if (0x41 \<le> c \<and> c \<le> 0x5A) \<or> c \<in> {0xC4, 0xD6, 0xDC} then [c + 32]
                            else [c]) \<rparr>"

text \<open>
  The loop of \<open>do_title\<close> without the left and right context, which only U+03A3 reads.
\<close>

fun title_from :: "casing \<Rightarrow> bool \<Rightarrow> pystr \<Rightarrow> pystr" where
  "title_from ucd p [] = []"
| "title_from ucd p (c # cs) =
     (if p then to_lower_full ucd c else to_title_full ucd c) @ title_from ucd (is_cased ucd c) cs"

text \<open>
  A character is stable when title-casing leaves each of its two expansions as it is and
  ends in the state the character itself leaves: the expansion's last code point is cased
  exactly when the character is.
\<close>

definition seg_stable :: "casing \<Rightarrow> bool \<Rightarrow> codepoint \<Rightarrow> bool" where
  "seg_stable ucd p c =
     (let seg = (if p then to_lower_full ucd c else to_title_full ucd c)
      in 0x3A3 \<notin> set seg \<and> title_from ucd p seg = seg
         \<and> (if seg = [] then p else is_cased ucd (last seg)) = is_cased ucd c)"

definition stable_char :: "casing \<Rightarrow> codepoint \<Rightarrow> bool" where
  "stable_char ucd c = (c \<noteq> 0x3A3 \<and> seg_stable ucd False c \<and> seg_stable ucd True c)"

section \<open>Logging and the network\<close>

datatype level = ERROR | WARNING | DEBUG

text \<open>A log record: its level and the format string passed to the logger.\<close>

type_synonym log_entry = "level \<times> string"

text \<open>
  A request as the program hands it to the HTTP library. \<open>http_timeout\<close> is
  \<open>None\<close> when the program passes no timeout and leaves it to the library.
\<close>

record http_request =
  http_method :: string
  http_url :: pystr
  http_verify :: bool
  http_timeout :: "nat option"

text \<open>
  What \<open>requests.get\<close> does with a request: it raises a \<open>RequestException\<close>
  (connection error, timeout, ...) or returns a response. Of a response the program reads
  the status code and \<open>response.json()\<close>, which is \<open>None\<close> here when the body is not
  JSON and the call raises \<open>ValueError\<close>.
\<close>

datatype http_reply = RequestException | Response nat "pyval option"

text \<open>
  \<open>Response.raise_for_status\<close> of the \<open>requests\<close> library raises \<open>HTTPError\<close>, a
  \<open>RequestException\<close>, for the client and server error codes 400 to 599, and for no
  other status code.
\<close>

definition raise_for_status :: "nat \<Rightarrow> bool" where
  "raise_for_status status_code = (400 \<le> status_code \<and> status_code < 600)"

text \<open>
  What one call leaves behind: the object it mutated, the log records and the requests
  it produced in order, and the exception that left it, if any.
\<close>

record 's outcome =
  final :: 's
  logged :: "log_entry list"
  sent :: "http_request list"
  raised :: "exn option"

section \<open>The sensor\<close>

definition ATTR_BRAND :: string where "ATTR_BRAND = ''brand''"
definition ATTR_ADDRESS :: string where "ATTR_ADDRESS = ''address''"
definition ATTR_STATUS :: string where "ATTR_STATUS = ''status''"

text \<open>
  Modelled from the spec: the host's constants \<open>ATTR_LATITUDE\<close>, \<open>ATTR_LONGITUDE\<close> and
  \<open>ATTR_ATTRIBUTION\<close> are imported from \<open>homeassistant.const\<close>, which is not under
  src/; section 6 of the spec names the attributes latitude, longitude and attribution.
\<close>

definition ATTR_LATITUDE :: string where "ATTR_LATITUDE = ''latitude''"
definition ATTR_LONGITUDE :: string where "ATTR_LONGITUDE = ''longitude''"
definition ATTR_ATTRIBUTION :: string where "ATTR_ATTRIBUTION = ''attribution''"

definition ICON :: pystr where "ICON = ascii ''mdi:gas-station''"

definition ATTRIBUTION :: pystr where
  "ATTRIBUTION = ascii ''Data provided by Tankerk'' @ [0xF6] @ ascii ''nig''"

definition UNIT_OF_MEASUREMENT :: pystr where "UNIT_OF_MEASUREMENT = [0x20AC]"

text \<open>
  Modelled from the spec: \<open>CURRENCY_EURO\<close> and \<open>SensorDeviceClass.MONETARY\<close> are the
  host's; section 6 of the spec calls the state a currency-denominated price and the
  device class monetary.
\<close>

definition CURRENCY_EURO :: pystr where "CURRENCY_EURO = [0x20AC]"

datatype SensorDeviceClass = MONETARY


text \<open>
  The fields both sensor classes have. \<open>attributes\<close> is the dict \<open>_attributes\<close>,
  \<open>state\<close> is \<open>_state\<close> with \<open>PNone\<close> for \<open>None\<close>.
\<close>

record entity =
  name :: pystr
  state :: pyval
  attributes :: "string \<rightharpoonup> pyval"

record TankerkoenigApi =
  api_key :: pystr

text \<open>
  The sensor of \<open>custom_components/tankerkoenig/sensor.py\<close>. Latitude, longitude and
  radius are numbers of the host's configuration; their type is left open.
\<close>

record 'n TankerkoenigSensor = entity +
  api :: TankerkoenigApi
  latitude :: 'n
  longitude :: 'n
  radius :: 'n
  fuel_type :: pystr

text \<open>
  The host's \<open>RestData\<close>, as the sensor of \<open>sensor.py\<close> uses it: the constructor
  arguments and the field \<open>data\<close> that \<open>update()\<close> fills.
\<close>

record RestData =
  rest_method :: string
  resource :: pystr
  auth :: pyval
  headers :: pyval
  payload :: pyval
  verify_ssl :: bool
  data :: "pystr option"

text \<open>The sensor of \<open>sensor.py\<close>.\<close>

record RestSensor = entity +
  rest :: RestData

definition icon :: "'a entity_scheme \<Rightarrow> pystr" where
  "icon self = ICON"

definition unit_of_measurement :: "'n TankerkoenigSensor \<Rightarrow> pystr" where
  "unit_of_measurement self = CURRENCY_EURO"

definition device_class :: "'n TankerkoenigSensor \<Rightarrow> SensorDeviceClass" where
  "device_class self = MONETARY"

definition unit_of_measurement_rest :: "RestSensor \<Rightarrow> pystr" where
  "unit_of_measurement_rest self = UNIT_OF_MEASUREMENT"

subsection \<open>Statements that may raise\<close>

text \<open>
  An assignment evaluates its right-hand side first; when that raises, the target keeps
  its value and the rest of the block is skipped.
\<close>

type_synonym 's stmt = "'s \<Rightarrow> 's \<times> exn option"

definition assign_state :: "exn + pyval \<Rightarrow> ('a entity_scheme) stmt" where
  "assign_state rhs self =
     (case rhs of Inl e \<Rightarrow> (self, Some e) | Inr v \<Rightarrow> (self\<lparr>state := v\<rparr>, None))"

definition assign_attribute :: "string \<Rightarrow> exn + pyval \<Rightarrow> ('a entity_scheme) stmt" where
  "assign_attribute k rhs self =
     (case rhs of Inl e \<Rightarrow> (self, Some e)
      | Inr v \<Rightarrow> (self\<lparr>attributes := (attributes self)(k \<mapsto> v)\<rparr>, None))"

fun block :: "'s stmt list \<Rightarrow> 's stmt" where
  "block [] self = (self, None)"
| "block (st # sts) self =
     (case st self of (self', None) \<Rightarrow> block sts self' | (self', Some e) \<Rightarrow> (self', Some e))"

text \<open>\<open>stations[0][key]\<close>\<close>

definition station_field :: "pyval \<Rightarrow> string \<Rightarrow> exn + pyval" where
  "station_field stations k = bind (getitem0 stations) (\<lambda>station. getitem station k)"

text \<open>The body of \<open>if stations:\<close>, the same in both files.\<close>

definition populate :: "casing \<Rightarrow> pyval \<Rightarrow> ('a entity_scheme) stmt" where
  "populate ucd stations =
     block
       [assign_state (station_field stations ''price''),
        assign_attribute ATTR_BRAND
          (bind (station_field stations ''brand'') (title_method ucd)),
        assign_attribute ATTR_ADDRESS
          (bind (bind (station_field stations ''street'') (title_method ucd))
             (\<lambda>street. bind (station_field stations ''houseNumber'') (str_add street))),
        assign_attribute ATTR_STATUS
          (bind (station_field stations ''isOpen'')
             (\<lambda>is_open. Inr (PStr (if truthy is_open then ascii ''open'' else ascii ''closed'')))),
        assign_attribute ATTR_LATITUDE (station_field stations ''lat''),
        assign_attribute ATTR_LONGITUDE (station_field stations ''lng''),
        assign_attribute ATTR_ATTRIBUTION (Inr (PStr ATTRIBUTION))]"

definition if_stations :: "casing \<Rightarrow> pyval \<Rightarrow> ('a entity_scheme) stmt" where
  "if_stations ucd stations self =
     (if truthy stations then populate ucd stations self else (self, None))"

subsection \<open>\<open>custom_components/tankerkoenig/sensor.py\<close>\<close>

text \<open>
  The request of \<open>get_stations\<close>. \<open>fmt\<close> is Python's formatting of the three
  numbers in the f-string; the key and the fuel type are strings and go in as they are.
\<close>

definition stations_request ::
  "('n \<Rightarrow> pystr) \<Rightarrow> TankerkoenigApi \<Rightarrow> 'n \<Rightarrow> 'n \<Rightarrow> 'n \<Rightarrow> pystr \<Rightarrow> http_request" where
  "stations_request fmt self lat lng rad fuel =
     \<lparr> http_method = ''GET'',
       http_url =
         ascii ''https://creativecommons.tankerkoenig.de/json/list.php''
         @ ascii ''?apikey='' @ api_key self
         @ ascii ''&lat='' @ fmt lat
         @ ascii ''&lng='' @ fmt lng
         @ ascii ''&rad='' @ fmt rad
         @ ascii ''&type='' @ fuel
         @ ascii ''&sort=price'',
       http_verify = True,
       http_timeout = Some 10 \<rparr>"

text \<open>
  \<open>get_stations\<close> returns the decoded body or \<open>None\<close>; with it come the request it
  sent and what it logged.
\<close>

definition get_stations ::
  "('n \<Rightarrow> pystr) \<Rightarrow> (http_request \<Rightarrow> http_reply) \<Rightarrow> TankerkoenigApi
     \<Rightarrow> 'n \<Rightarrow> 'n \<Rightarrow> 'n \<Rightarrow> pystr \<Rightarrow> pyval \<times> http_request list \<times> log_entry list" where
  "get_stations fmt net self lat lng rad fuel =
     (let request = stations_request fmt self lat lng rad fuel
      in case net request of
           RequestException \<Rightarrow>
             (PNone, [request], [(ERROR, ''Error fetching data: %s failed with %s'')])
         | Response status_code body \<Rightarrow>
             if raise_for_status status_code
             then (PNone, [request], [(ERROR, ''Error fetching data: %s failed with %s'')])
             else (case body of
                     None \<Rightarrow>
                       (PNone, [request], [(ERROR, ''Error parsing data: %s failed with %s'')])
                   | Some json \<Rightarrow> (json, [request], [])))"

definition setup_platform ::
  "pystr \<Rightarrow> pystr \<Rightarrow> pystr \<Rightarrow> 'n \<Rightarrow> 'n \<Rightarrow> 'n \<Rightarrow> 'n TankerkoenigSensor" where
  "setup_platform conf_api_key conf_fuel_type conf_name conf_radius hass_latitude hass_longitude =
     \<lparr> name = conf_name, state = PNone, attributes = Map.empty,
       api = \<lparr> api_key = conf_api_key \<rparr>,
       latitude = hass_latitude, longitude = hass_longitude,
       radius = conf_radius, fuel_type = conf_fuel_type \<rparr>"

text \<open>
  The body of \<open>update\<close>, without its decorator. Only \<open>KeyError\<close> is caught around
  \<open>result["stations"]\<close>.
\<close>

definition update ::
  "casing \<Rightarrow> ('n \<Rightarrow> pystr) \<Rightarrow> (http_request \<Rightarrow> http_reply)
     \<Rightarrow> 'n TankerkoenigSensor \<Rightarrow> 'n TankerkoenigSensor outcome" where
  "update ucd fmt net self0 =
     (let self = self0\<lparr>state := PNone, attributes := Map.empty\<rparr>;
          (result, requests, log1) =
            get_stations fmt net (api self) (latitude self) (longitude self) (radius self)
              (fuel_type self);
          finish = (\<lambda>stations log2.
            case if_stations ucd stations self of
              (self', exc) \<Rightarrow>
                \<lparr> final = self', logged = log1 @ log2, sent = requests, raised = exc \<rparr>)
      in if truthy result
         then (case getitem result ''stations'' of
                 Inr stations \<Rightarrow> finish stations []
               | Inl e \<Rightarrow>
                   if e = KeyError
                   then finish PNone
                          [(ERROR, ''Erroneous result found when expecting list of stations: %s'')]
                   else \<lparr> final = self, logged = log1, sent = requests, raised = Some e \<rparr>)
         else finish PNone [(ERROR, ''Empty result found when expecting list of stations'')])"

subsection \<open>\<open>sensor.py\<close>\<close>

text \<open>
  \<open>url.format(latitude, longitude, radius, fuel_type, api_key)\<close> and the
  \<open>RestData\<close> built from it. No timeout is passed.
\<close>

definition setup_platform_rest ::
  "('n \<Rightarrow> pystr) \<Rightarrow> pystr \<Rightarrow> pystr \<Rightarrow> pystr \<Rightarrow> 'n \<Rightarrow> 'n \<Rightarrow> 'n \<Rightarrow> RestSensor" where
  "setup_platform_rest fmt conf_api_key conf_fuel_type conf_name conf_radius hass_latitude
       hass_longitude =
     (let endpoint =
            ascii ''https://creativecommons.tankerkoenig.de/json/list.php''
            @ ascii ''?lat='' @ fmt hass_latitude
            @ ascii ''&lng='' @ fmt hass_longitude
            @ ascii ''&rad='' @ fmt conf_radius
            @ ascii ''&sort=price''
            @ ascii ''&type='' @ conf_fuel_type
            @ ascii ''&apikey='' @ conf_api_key
      in \<lparr> name = conf_name, state = PNone, attributes = Map.empty,
           rest = \<lparr> rest_method = ''GET'', resource = endpoint, auth = PNone, headers = PNone,
                    payload = PNone, verify_ssl = True, data = None \<rparr> \<rparr>)"

text \<open>
  The host's \<open>RestData.update\<close>: it sends the request the object was built for and
  leaves the text of the response in \<open>data\<close>, or \<open>None\<close> when the request failed.
  The network is the function \<open>net\<close>.
\<close>

definition rest_request :: "RestData \<Rightarrow> http_request" where
  "rest_request r =
     \<lparr> http_method = rest_method r, http_url = resource r, http_verify = verify_ssl r,
       http_timeout = None \<rparr>"

definition RestData_update :: "(http_request \<Rightarrow> pystr option) \<Rightarrow> RestData \<Rightarrow> RestData" where
  "RestData_update net r = r\<lparr>data := net (rest_request r)\<rparr>"

text \<open>
  The body of \<open>update\<close> in \<open>sensor.py\<close>. \<open>loads\<close> is \<open>json.loads\<close>, \<open>None\<close>
  where it raises \<open>ValueError\<close>; that is the only exception the \<open>try\<close> catches.
\<close>

definition update_rest ::
  "casing \<Rightarrow> (pystr \<Rightarrow> pyval option) \<Rightarrow> (http_request \<Rightarrow> pystr option)
     \<Rightarrow> RestSensor \<Rightarrow> RestSensor outcome" where
  "update_rest ucd loads net self0 =
     (let self = self0\<lparr>state := PNone, attributes := Map.empty\<rparr>;
          requests = [rest_request (rest self)];
          self = self\<lparr>rest := RestData_update net (rest self)\<rparr>;
          result = data (rest self);
          finish = (\<lambda>stations entries.
            case if_stations ucd stations self of
              (self', exc) \<Rightarrow>
                \<lparr> final = self', logged = entries, sent = requests, raised = exc \<rparr>);
          fail = (\<lambda>e. \<lparr> final = self, logged = [], sent = requests, raised = Some e \<rparr>)
      in case result of
           None \<Rightarrow> finish (PList []) [(WARNING, ''Empty reply found when expecting JSON data'')]
         | Some text \<Rightarrow>
             if text = []
             then finish (PList []) [(WARNING, ''Empty reply found when expecting JSON data'')]
             else (case loads text of
                     None \<Rightarrow>
                       finish (PList [])
                         [(WARNING, ''REST result could not be parsed as JSON''),
                          (DEBUG, ''Erroneous JSON: %s'')]
                   | Some json_result \<Rightarrow>
                       (case getitem json_result ''ok'' of
                          Inl e \<Rightarrow> fail e
                        | Inr ok \<Rightarrow>
                            if truthy ok
                            then (case getitem json_result ''stations'' of
                                    Inl e \<Rightarrow> fail e
                                  | Inr stations \<Rightarrow>
                                      finish stations [(DEBUG, ''Received stations: %s'')])
                            else finish (PList []) [])))"

subsection \<open>The throttle\<close>






section \<open>What the claims speak of\<close>

text \<open>The request an \<open>update\<close> of the sensor sends, from the fields it holds.\<close>

definition request_of :: "('n \<Rightarrow> pystr) \<Rightarrow> 'n TankerkoenigSensor \<Rightarrow> http_request" where
  "request_of fmt self =
     stations_request fmt (api self) (latitude self) (longitude self) (radius self)
       (fuel_type self)"

fun str_of :: "pyval \<Rightarrow> pystr option" where
  "str_of (PStr s) = Some s"
| "str_of _ = None"

text \<open>
  The reading section 3 of the spec derives from a station record: the price as state
  and the six attributes. It is \<open>None\<close> for a record that lacks a field or whose brand,
  street or house number is not a string.
\<close>

definition reading ::
  "casing \<Rightarrow> (string \<times> pyval) list \<Rightarrow> (pyval \<times> (string \<rightharpoonup> pyval)) option" where
  "reading ucd station =
     Option.bind (map_of station ''price'') (\<lambda>price.
     Option.bind (Option.bind (map_of station ''brand'') str_of) (\<lambda>brand.
     Option.bind (Option.bind (map_of station ''street'') str_of) (\<lambda>street.
     Option.bind (Option.bind (map_of station ''houseNumber'') str_of) (\<lambda>house_number.
     Option.bind (map_of station ''isOpen'') (\<lambda>is_open.
     Option.bind (map_of station ''lat'') (\<lambda>lat.
     Option.bind (map_of station ''lng'') (\<lambda>lng.
       Some (price,
             [ATTR_BRAND \<mapsto> PStr (title ucd brand),
              ATTR_ADDRESS \<mapsto> PStr (title ucd street @ house_number),
              ATTR_STATUS \<mapsto> PStr (if truthy is_open then ascii ''open'' else ascii ''closed''),
              ATTR_LATITUDE \<mapsto> lat,
              ATTR_LONGITUDE \<mapsto> lng,
              ATTR_ATTRIBUTION \<mapsto> PStr ATTRIBUTION]))))))))"

definition has_level :: "level \<Rightarrow> log_entry list \<Rightarrow> bool" where
  "has_level l entries = (l \<in> fst ` set entries)"

subsection \<open>Reading a URL\<close>










subsection \<open>Concrete inputs\<close>

text \<open>A network, or a decoder, that answers everything with the same value.\<close>

definition always :: "'r \<Rightarrow> 'q \<Rightarrow> 'r" where
  "always reply request = reply"

text \<open>
  In the concrete sensors the three numbers are held as the text Python prints for them,
  and \<open>fmt\<close> is the identity.
\<close>

definition demo_sensor :: "pystr TankerkoenigSensor" where
  "demo_sensor =
     setup_platform (ascii ''key'') (ascii ''e5'') (ascii ''Tankerkoenig'') (ascii ''1.5'')
       (ascii ''50.1'') (ascii ''8.6'')"

definition demo_rest_sensor :: RestSensor where
  "demo_rest_sensor =
     setup_platform_rest id (ascii ''key'') (ascii ''e5'') (ascii ''Tankerkoenig'') (ascii ''1.5'')
       (ascii ''50.1'') (ascii ''8.6'')"

text \<open>The station of the example in section 8 of the spec.\<close>

definition demo_station :: "(string \<times> pyval) list" where
  "demo_station =
     [(''price'', PFloat (Finite 1.679)), (''brand'', PStr (ascii ''aral'')),
      (''street'', PStr (ascii ''hauptstrasse'')), (''houseNumber'', PStr (ascii ''12'')),
      (''isOpen'', PBool True), (''lat'', PFloat (Finite 50.1)), (''lng'', PFloat (Finite 8.6))]"

definition demo_envelope :: "bool \<Rightarrow> pyval list \<Rightarrow> (string \<times> pyval) list" where
  "demo_envelope ok stations = [(''ok'', PBool ok), (''stations'', PList stations)]"

text \<open>A station record that has a price and nothing else.\<close>

definition price_only :: "(string \<times> pyval) list" where
  "price_only = [(''price'', PFloat (Finite 1.5))]"

text \<open>
  A station record as section 6 of the spec lays it out, with its fields named: brand,
  street and house number are strings and the open flag is a boolean.
\<close>

definition station_has ::
  "(string \<times> pyval) list \<Rightarrow> pyval \<Rightarrow> pystr \<Rightarrow> pystr \<Rightarrow> pystr \<Rightarrow> bool \<Rightarrow> pyval \<Rightarrow> pyval \<Rightarrow> bool" where
  "station_has station price brand street house_number is_open lat lng =
     (map_of station ''price'' = Some price
      \<and> map_of station ''brand'' = Some (PStr brand)
      \<and> map_of station ''street'' = Some (PStr street)
      \<and> map_of station ''houseNumber'' = Some (PStr house_number)
      \<and> map_of station ''isOpen'' = Some (PBool is_open)
      \<and> map_of station ''lat'' = Some lat
      \<and> map_of station ''lng'' = Some lng)"

text \<open>State and attributes are as \<open>__init__\<close> leaves them.\<close>

definition cleared :: "'a entity_scheme \<Rightarrow> bool" where
  "cleared self = (state self = PNone \<and> attributes self = Map.empty)"

text \<open>The text \<open>{}\<close>, standing for the body of a reply in the concrete runs.\<close>

definition demo_body :: pystr where
  "demo_body = ascii ''{}''"

text \<open>
  A cycle is resolved when it ends with state and attributes cleared, raises nothing and
  has sent one request and no more.
\<close>

definition resolved :: "('a entity_scheme) outcome \<Rightarrow> bool" where
  "resolved out = (cleared (final out) \<and> raised out = None \<and> length (sent out) = 1)"

text \<open>
  The text \<open>{"ok": false}\<close> and what \<open>json.loads\<close> makes of it; the decoder is not
  asked for any other text.
\<close>

definition ok_false_text :: pystr where
  "ok_false_text = ascii ''{'' @ 0x22 # ascii ''ok'' @ 0x22 # ascii '': false}''"

definition decode_ok_false :: "pystr \<Rightarrow> pyval option" where
  "decode_ok_false s = (if s = ok_false_text then Some (PDict [(''ok'', PBool False)]) else None)"




text \<open>The street name \<open>gruene strasse 12\<close>, written with u umlaut and sharp s.\<close>

definition demo_street :: pystr where
  "demo_street = ascii ''gr'' @ 0xFC # ascii ''ne stra'' @ 0xDF # ascii ''e 12''"


section \<open>Title-casing\<close>

lemma do_title_no_sigma:
  "0x3A3 \<notin> set s \<Longrightarrow> do_title ucd preceding p s = title_from ucd p s"
  by (induction s arbitrary: preceding p) (auto simp: lower_ucs4_def)

lemma title_from_append:
  "title_from ucd p (xs @ ys) =
     title_from ucd p xs @ title_from ucd (if xs = [] then p else is_cased ucd (last xs)) ys"
  by (induction xs arbitrary: p) auto

lemma title_from_no_sigma:
  "list_all (stable_char ucd) s \<Longrightarrow> 0x3A3 \<notin> set (title_from ucd p s)"
  by (induction s arbitrary: p) (auto simp: stable_char_def seg_stable_def Let_def)

lemma title_from_idem:
  "list_all (stable_char ucd) s \<Longrightarrow> title_from ucd p (title_from ucd p s) = title_from ucd p s"
proof (induction s arbitrary: p)
  case Nil
  then show ?case by simp
next
  case (Cons c cs)
  define seg where "seg = (if p then to_lower_full ucd c else to_title_full ucd c)"
  from Cons.prems have st: "seg_stable ucd p c"
    by (cases p) (simp_all add: stable_char_def)
  then have both: "title_from ucd p seg = seg
      \<and> (if seg = [] then p else is_cased ucd (last seg)) = is_cased ucd c"
    unfolding seg_stable_def seg_def Let_def by (elim conjE) (rule conjI)
  from both have segfix: "title_from ucd p seg = seg" ..
  from both have segflag: "(if seg = [] then p else is_cased ucd (last seg)) = is_cased ucd c" ..
  from Cons.prems have "list_all (stable_char ucd) cs" by simp
  then have ih: "title_from ucd (is_cased ucd c) (title_from ucd (is_cased ucd c) cs)
                 = title_from ucd (is_cased ucd c) cs"
    by (rule Cons.IH)
  have "title_from ucd p (title_from ucd p (c # cs))
        = title_from ucd p (seg @ title_from ucd (is_cased ucd c) cs)"
    by (simp add: seg_def)
  also have "\<dots> = seg @ title_from ucd (is_cased ucd c) (title_from ucd (is_cased ucd c) cs)"
    by (simp only: title_from_append segfix segflag)
  also have "\<dots> = title_from ucd p (c # cs)"
    by (simp add: ih seg_def)
  finally show ?case .
qed

lemma title_idem_stable:
  assumes "list_all (stable_char ucd) s"
  shows "title ucd (title ucd s) = title ucd s"
proof -
  from assms have "0x3A3 \<notin> set s"
    by (induction s) (auto simp: stable_char_def)
  then have t: "title ucd s = title_from ucd False s"
    by (simp add: title_def do_title_no_sigma)
  from assms have "0x3A3 \<notin> set (title_from ucd False s)"
    by (rule title_from_no_sigma)
  then have "title ucd (title_from ucd False s) = title_from ucd False (title_from ucd False s)"
    by (simp add: title_def do_title_no_sigma)
  with t assms show ?thesis
    by (simp add: title_from_idem)
qed

section \<open>Expressions and statements\<close>

lemma bind_Inr: "bind r f = Inr v \<longleftrightarrow> (\<exists>u. r = Inr u \<and> f u = Inr v)"
  by (cases r) (simp_all add: bind_def)

lemma getitem_Inr: "getitem x k = Inr v \<longleftrightarrow> (\<exists>kvs. x = PDict kvs \<and> map_of kvs k = Some v)"
  by (cases x) (simp_all split: option.splits)

lemma getitem0_Inr:
  "getitem0 x = Inr v \<longleftrightarrow> (\<exists>xs. x = PList (v # xs)) \<or> (\<exists>c cs. x = PStr (c # cs) \<and> v = PStr [c])"
  by (cases x rule: getitem0.cases) auto

lemma station_field_Inr:
  "station_field stations k = Inr v \<longleftrightarrow>
     (\<exists>station others. stations = PList (PDict station # others) \<and> map_of station k = Some v)"
  by (auto simp: station_field_def bind_Inr getitem_Inr getitem0_Inr)

lemma title_method_Inr:
  "title_method ucd x = Inr v \<longleftrightarrow> (\<exists>s. x = PStr s \<and> v = PStr (title ucd s))"
  by (cases x) auto

lemma str_add_Inr:
  "str_add a b = Inr v \<longleftrightarrow> (\<exists>x y. a = PStr x \<and> b = PStr y \<and> v = PStr (x @ y))"
  by (cases "(a, b)" rule: str_add.cases) auto

lemma assign_state_None:
  "assign_state rhs self = (mid, None) \<longleftrightarrow> (\<exists>v. rhs = Inr v \<and> mid = self\<lparr>state := v\<rparr>)"
  by (cases rhs) (auto simp: assign_state_def)

lemma assign_attribute_None:
  "assign_attribute k rhs self = (mid, None) \<longleftrightarrow>
     (\<exists>v. rhs = Inr v \<and> mid = self\<lparr>attributes := (attributes self)(k \<mapsto> v)\<rparr>)"
  by (cases rhs) (auto simp: assign_attribute_def)

lemma block_Cons_None:
  "block (st # sts) self = (self', None) \<longleftrightarrow>
     (\<exists>mid. st self = (mid, None) \<and> block sts mid = (self', None))"
  by (auto split: prod.splits option.splits)

lemma block_Nil_None: "block [] self = (self', None) \<longleftrightarrow> self' = self"
  by auto

lemma populate_None:
  assumes "populate ucd stations self = (self', None)" and "attributes self = Map.empty"
  shows "\<exists>station others. stations = PList (PDict station # others)
           \<and> reading ucd station = Some (state self', attributes self')"
  using assms
  unfolding populate_def block_Cons_None block_Nil_None assign_state_None assign_attribute_None
    bind_Inr station_field_Inr title_method_Inr str_add_Inr
  by (auto simp: reading_def)

lemma populate_valid:
  assumes "map_of station ''price'' = Some price"
    and "map_of station ''brand'' = Some (PStr brand)"
    and "map_of station ''street'' = Some (PStr street)"
    and "map_of station ''houseNumber'' = Some (PStr house_number)"
    and "map_of station ''isOpen'' = Some is_open"
    and "map_of station ''lat'' = Some lat"
    and "map_of station ''lng'' = Some lng"
  shows "populate ucd (PList (PDict station # others)) self =
     (self\<lparr>state := price,
           attributes := (attributes self)
             (ATTR_BRAND \<mapsto> PStr (title ucd brand),
              ATTR_ADDRESS \<mapsto> PStr (title ucd street @ house_number),
              ATTR_STATUS \<mapsto> PStr (if truthy is_open then ascii ''open'' else ascii ''closed''),
              ATTR_LATITUDE \<mapsto> lat,
              ATTR_LONGITUDE \<mapsto> lng,
              ATTR_ATTRIBUTION \<mapsto> PStr ATTRIBUTION)\<rparr>, None)"
  using assms
  by (simp add: populate_def station_field_def bind_def assign_state_def assign_attribute_def)

lemma assign_attribute_keeps_state: "state (fst (assign_attribute k rhs self)) = state self"
  by (cases rhs) (simp_all add: assign_attribute_def)

lemma block_keeps_state:
  assumes "\<And>st s. st \<in> set sts \<Longrightarrow> state (fst (st s)) = state s"
  shows "state (fst (block sts self)) = state self"
  using assms
proof (induction sts arbitrary: self)
  case Nil
  then show ?case by simp
next
  case (Cons st sts)
  obtain mid r where st: "st self = (mid, r)" by (cases "st self")
  from Cons.prems[of st self] st have mid: "state mid = state self" by simp
  show ?case
  proof (cases r)
    case None
    have "state (fst (block sts mid)) = state mid"
      by (rule Cons.IH) (simp add: Cons.prems)
    with st None mid show ?thesis by simp
  next
    case (Some e)
    with st mid show ?thesis by simp
  qed
qed

lemma populate_price:
  assumes "map_of station ''price'' = Some price"
  shows "state (fst (populate ucd (PList (PDict station # others)) self)) = price"
  unfolding populate_def
  apply (subst block.simps(2))
  apply (simp add: station_field_def bind_def assign_state_def assms del: block.simps)
  apply (subst block_keeps_state)
   apply (auto simp: assign_attribute_keeps_state)
  done

subsection \<open>Frame\<close>

lemma assign_state_frame:
  "\<exists>x a. fst (assign_state rhs self) = self\<lparr>state := x, attributes := a\<rparr>"
proof (cases rhs)
  case (Inl e)
  then have "fst (assign_state rhs self) = self\<lparr>state := state self, attributes := attributes self\<rparr>"
    by (simp add: assign_state_def)
  then show ?thesis by blast
next
  case (Inr v)
  then have "fst (assign_state rhs self) = self\<lparr>state := v, attributes := attributes self\<rparr>"
    by (simp add: assign_state_def)
  then show ?thesis by blast
qed

lemma assign_attribute_frame:
  "\<exists>x a. fst (assign_attribute k rhs self) = self\<lparr>state := x, attributes := a\<rparr>"
proof (cases rhs)
  case (Inl e)
  then have "fst (assign_attribute k rhs self)
             = self\<lparr>state := state self, attributes := attributes self\<rparr>"
    by (simp add: assign_attribute_def)
  then show ?thesis by blast
next
  case (Inr v)
  then have "fst (assign_attribute k rhs self)
             = self\<lparr>state := state self, attributes := (attributes self)(k \<mapsto> v)\<rparr>"
    by (simp add: assign_attribute_def)
  then show ?thesis by blast
qed

lemma block_frame:
  assumes "\<And>st s. st \<in> set sts \<Longrightarrow> \<exists>x a. fst (st s) = s\<lparr>state := x, attributes := a\<rparr>"
  shows "\<exists>x a. fst (block sts self) = self\<lparr>state := x, attributes := a\<rparr>"
  using assms
proof (induction sts arbitrary: self)
  case Nil
  have "fst (block [] self) = self\<lparr>state := state self, attributes := attributes self\<rparr>"
    by simp
  then show ?case by blast
next
  case (Cons st sts)
  obtain mid r where st: "st self = (mid, r)" by (cases "st self")
  from Cons.prems[of st self] st obtain x a where mid: "mid = self\<lparr>state := x, attributes := a\<rparr>"
    by auto
  show ?case
  proof (cases r)
    case None
    from Cons.IH[of mid] Cons.prems obtain x' a'
      where "fst (block sts mid) = mid\<lparr>state := x', attributes := a'\<rparr>"
      by auto
    with st None mid have "fst (block (st # sts) self) = self\<lparr>state := x', attributes := a'\<rparr>"
      by simp
    then show ?thesis by blast
  next
    case (Some e)
    with st mid have "fst (block (st # sts) self) = self\<lparr>state := x, attributes := a\<rparr>"
      by simp
    then show ?thesis by blast
  qed
qed

lemma populate_frame:
  "\<exists>x a. fst (populate ucd stations self) = self\<lparr>state := x, attributes := a\<rparr>"
  unfolding populate_def
  by (rule block_frame) (auto simp: assign_state_frame assign_attribute_frame)

lemma if_stations_frame:
  "\<exists>x a. fst (if_stations ucd stations self) = self\<lparr>state := x, attributes := a\<rparr>"
proof (cases "truthy stations")
  case True
  then show ?thesis using populate_frame[of ucd stations self] by (simp add: if_stations_def)
next
  case False
  then have "fst (if_stations ucd stations self)
             = self\<lparr>state := state self, attributes := attributes self\<rparr>"
    by (simp add: if_stations_def)
  then show ?thesis by blast
qed

section \<open>The two update functions, case by case\<close>

lemma if_stations_falsy: "\<not> truthy stations \<Longrightarrow> if_stations ucd stations self = (self, None)"
  by (simp add: if_stations_def)

lemma get_stations_transport:
  "net (stations_request fmt a lat lng rad fuel) = RequestException \<Longrightarrow>
   get_stations fmt net a lat lng rad fuel =
     (PNone, [stations_request fmt a lat lng rad fuel],
      [(ERROR, ''Error fetching data: %s failed with %s'')])"
  by (simp add: get_stations_def)

lemma get_stations_status:
  "net (stations_request fmt a lat lng rad fuel) = Response status_code body \<Longrightarrow>
   raise_for_status status_code \<Longrightarrow>
   get_stations fmt net a lat lng rad fuel =
     (PNone, [stations_request fmt a lat lng rad fuel],
      [(ERROR, ''Error fetching data: %s failed with %s'')])"
  by (simp add: get_stations_def)

lemma get_stations_parse:
  "net (stations_request fmt a lat lng rad fuel) = Response status_code None \<Longrightarrow>
   \<not> raise_for_status status_code \<Longrightarrow>
   get_stations fmt net a lat lng rad fuel =
     (PNone, [stations_request fmt a lat lng rad fuel],
      [(ERROR, ''Error parsing data: %s failed with %s'')])"
  by (simp add: get_stations_def)

lemma get_stations_json:
  "net (stations_request fmt a lat lng rad fuel) = Response status_code (Some json) \<Longrightarrow>
   \<not> raise_for_status status_code \<Longrightarrow>
   get_stations fmt net a lat lng rad fuel = (json, [stations_request fmt a lat lng rad fuel], [])"
  by (simp add: get_stations_def)


lemma get_stations_data:
  "fst (get_stations fmt net a lat lng rad fuel) \<noteq> PNone \<Longrightarrow>
   \<exists>status_code. net (stations_request fmt a lat lng rad fuel)
       = Response status_code (Some (fst (get_stations fmt net a lat lng rad fuel)))"
  by (auto simp: get_stations_def Let_def split: http_reply.splits option.splits if_splits)

lemma update_result:
  assumes "get_stations fmt net (api self) (latitude self) (longitude self) (radius self)
             (fuel_type self) = (result, requests, log1)"
  shows "update ucd fmt net self =
     (if truthy result
      then (case getitem result ''stations'' of
              Inr stations \<Rightarrow>
                \<lparr> final = fst (if_stations ucd stations
                                (self\<lparr>state := PNone, attributes := Map.empty\<rparr>)),
                  logged = log1, sent = requests,
                  raised = snd (if_stations ucd stations
                                 (self\<lparr>state := PNone, attributes := Map.empty\<rparr>)) \<rparr>
            | Inl e \<Rightarrow>
                if e = KeyError
                then \<lparr> final = self\<lparr>state := PNone, attributes := Map.empty\<rparr>,
                       logged = log1 @ [(ERROR,
                         ''Erroneous result found when expecting list of stations: %s'')],
                       sent = requests, raised = None \<rparr>
                else \<lparr> final = self\<lparr>state := PNone, attributes := Map.empty\<rparr>,
                       logged = log1, sent = requests, raised = Some e \<rparr>)
      else \<lparr> final = self\<lparr>state := PNone, attributes := Map.empty\<rparr>,
             logged = log1 @ [(ERROR, ''Empty result found when expecting list of stations'')],
             sent = requests, raised = None \<rparr>)"
  using assms
  by (simp add: update_def Let_def if_stations_falsy split: prod.splits sum.splits)


lemma update_frame:
  "\<exists>x a. final (update ucd fmt net self) = self\<lparr>state := x, attributes := a\<rparr>"
proof -
  obtain result requests log1 where g:
    "get_stations fmt net (api self) (latitude self) (longitude self) (radius self)
       (fuel_type self) = (result, requests, log1)"
    by (cases "get_stations fmt net (api self) (latitude self) (longitude self) (radius self)
       (fuel_type self)")
  have cl: "\<exists>x a. self\<lparr>state := PNone, attributes := Map.empty\<rparr> = self\<lparr>state := x, attributes := a\<rparr>"
    by blast
  have pop: "\<exists>x a. fst (if_stations ucd stations (self\<lparr>state := PNone, attributes := Map.empty\<rparr>))
               = self\<lparr>state := x, attributes := a\<rparr>" for stations
    using if_stations_frame[of ucd stations "self\<lparr>state := PNone, attributes := Map.empty\<rparr>"]
    by simp
  show ?thesis
    using cl pop by (simp add: update_result[OF g] split: sum.splits)
qed

lemma update_no_raise:
  assumes "raised (update ucd fmt net self) = None"
  shows "(state (final (update ucd fmt net self)) = PNone
          \<and> attributes (final (update ucd fmt net self)) = Map.empty)
       \<or> (\<exists>status_code envelope station others.
             net (request_of fmt self) = Response status_code (Some (PDict envelope))
             \<and> map_of envelope ''stations'' = Some (PList (PDict station # others))
             \<and> reading ucd station
                 = Some (state (final (update ucd fmt net self)),
                         attributes (final (update ucd fmt net self))))"
proof -
  obtain result requests log1 where g:
    "get_stations fmt net (api self) (latitude self) (longitude self) (radius self)
       (fuel_type self) = (result, requests, log1)"
    by (cases "get_stations fmt net (api self) (latitude self) (longitude self) (radius self)
       (fuel_type self)")
  let ?cl = "self\<lparr>state := PNone, attributes := Map.empty\<rparr>"
  show ?thesis
  proof (cases "truthy result")
    case False
    then show ?thesis by (simp add: update_result[OF g])
  next
    case True
    show ?thesis
    proof (cases "getitem result ''stations''")
      case (Inl e)
      with True assms show ?thesis
        by (simp add: update_result[OF g] split: if_splits)
    next
      case (Inr stations)
      then obtain envelope where res: "result = PDict envelope"
        and st: "map_of envelope ''stations'' = Some stations"
        by (auto simp: getitem_Inr)
      from res g get_stations_data[of fmt net "api self" "latitude self" "longitude self"
          "radius self" "fuel_type self"]
      obtain status_code where net: "net (request_of fmt self) = Response status_code (Some (PDict envelope))"
        by (auto simp: request_of_def)
      obtain self' where fin: "if_stations ucd stations ?cl = (self', None)"
        using True Inr assms by (cases "if_stations ucd stations ?cl") (simp add: update_result[OF g])
      have upd: "final (update ucd fmt net self) = self'"
        using True Inr fin by (simp add: update_result[OF g])
      show ?thesis
      proof (cases "truthy stations")
        case False
        with fin have "self' = ?cl" by (simp add: if_stations_def)
        with upd show ?thesis by simp
      next
        case True
        with fin have "populate ucd stations ?cl = (self', None)" by (simp add: if_stations_def)
        from populate_None[OF this] obtain station others
          where "stations = PList (PDict station # others)"
            and "reading ucd station = Some (state self', attributes self')"
          by auto
        with net st upd show ?thesis by auto
      qed
    qed
  qed
qed

lemma update_rest_no_data:
  assumes "net (rest_request (rest self)) = None \<or> net (rest_request (rest self)) = Some []"
  shows "update_rest ucd loads net self =
     \<lparr> final = self\<lparr>state := PNone, attributes := Map.empty,
                      rest := (rest self)\<lparr>data := net (rest_request (rest self))\<rparr>\<rparr>,
       logged = [(WARNING, ''Empty reply found when expecting JSON data'')],
       sent = [rest_request (rest self)], raised = None \<rparr>"
  using assms
  by (auto simp: update_rest_def Let_def RestData_update_def if_stations_def)

lemma update_rest_unparsed:
  assumes "net (rest_request (rest self)) = Some body" and "body \<noteq> []"
    and "loads body = None"
  shows "update_rest ucd loads net self =
     \<lparr> final = self\<lparr>state := PNone, attributes := Map.empty,
                      rest := (rest self)\<lparr>data := Some body\<rparr>\<rparr>,
       logged = [(WARNING, ''REST result could not be parsed as JSON''),
                 (DEBUG, ''Erroneous JSON: %s'')],
       sent = [rest_request (rest self)], raised = None \<rparr>"
  using assms
  by (simp add: update_rest_def Let_def RestData_update_def if_stations_def)

lemma update_rest_parsed:
  assumes "net (rest_request (rest self)) = Some body" and "body \<noteq> []"
    and "loads body = Some json_result"
  shows "update_rest ucd loads net self =
     (let cleared = self\<lparr>state := PNone, attributes := Map.empty,
                           rest := (rest self)\<lparr>data := Some body\<rparr>\<rparr>
      in case getitem json_result ''ok'' of
           Inl e \<Rightarrow> \<lparr> final = cleared, logged = [], sent = [rest_request (rest self)],
                      raised = Some e \<rparr>
         | Inr ok \<Rightarrow>
             if truthy ok
             then (case getitem json_result ''stations'' of
                     Inl e \<Rightarrow> \<lparr> final = cleared, logged = [],
                                sent = [rest_request (rest self)], raised = Some e \<rparr>
                   | Inr stations \<Rightarrow>
                       \<lparr> final = fst (if_stations ucd stations cleared),
                         logged = [(DEBUG, ''Received stations: %s'')],
                         sent = [rest_request (rest self)],
                         raised = snd (if_stations ucd stations cleared) \<rparr>)
             else \<lparr> final = cleared, logged = [], sent = [rest_request (rest self)],
                    raised = None \<rparr>)"
  using assms
  by (simp add: update_rest_def Let_def RestData_update_def if_stations_def
           split: prod.splits sum.splits)

lemma update_rest_cases:
  obtains (no_data) "net (rest_request (rest self)) = None \<or> net (rest_request (rest self)) = Some []"
  | (unparsed) body where "net (rest_request (rest self)) = Some body" "body \<noteq> []" "loads body = None"
  | (parsed) body json_result where "net (rest_request (rest self)) = Some body" "body \<noteq> []"
      "loads body = Some json_result"
  by (cases "net (rest_request (rest self))"; cases "loads (the (net (rest_request (rest self))))") auto


lemma update_rest_frame:
  "\<exists>x a d. final (update_rest ucd loads net self)
     = self\<lparr>state := x, attributes := a, rest := (rest self)\<lparr>data := d\<rparr>\<rparr>"
proof (cases rule: update_rest_cases[where net = net and self = self and loads = loads])
  case no_data
  then show ?thesis by (simp add: update_rest_no_data) blast
next
  case (unparsed body)
  then show ?thesis by (simp add: update_rest_unparsed) blast
next
  case (parsed body json_result)
  let ?cl = "self\<lparr>state := PNone, attributes := Map.empty,
                   rest := (rest self)\<lparr>data := Some body\<rparr>\<rparr>"
  have cl: "\<exists>x a d. ?cl = self\<lparr>state := x, attributes := a, rest := (rest self)\<lparr>data := d\<rparr>\<rparr>"
    by blast
  have pop: "\<exists>x a d. fst (if_stations ucd stations ?cl)
               = self\<lparr>state := x, attributes := a, rest := (rest self)\<lparr>data := d\<rparr>\<rparr>" for stations
  proof -
    from if_stations_frame[of ucd stations ?cl] obtain x a
      where "fst (if_stations ucd stations ?cl) = ?cl\<lparr>state := x, attributes := a\<rparr>" by blast
    then have "fst (if_stations ucd stations ?cl)
       = self\<lparr>state := x, attributes := a, rest := (rest self)\<lparr>data := Some body\<rparr>\<rparr>" by simp
    then show ?thesis by blast
  qed
  show ?thesis
    using cl pop parsed by (simp add: update_rest_parsed Let_def split: sum.splits)
qed

lemma update_rest_no_raise:
  assumes "raised (update_rest ucd loads net self) = None"
  shows "(state (final (update_rest ucd loads net self)) = PNone
          \<and> attributes (final (update_rest ucd loads net self)) = Map.empty)
       \<or> (\<exists>body envelope station others.
             net (rest_request (rest self)) = Some body
             \<and> loads body = Some (PDict envelope)
             \<and> map_of envelope ''stations'' = Some (PList (PDict station # others))
             \<and> reading ucd station
                 = Some (state (final (update_rest ucd loads net self)),
                         attributes (final (update_rest ucd loads net self))))"
proof (cases rule: update_rest_cases[where net = net and self = self and loads = loads])
  case no_data
  then show ?thesis by (simp add: update_rest_no_data)
next
  case (unparsed body)
  then show ?thesis by (simp add: update_rest_unparsed)
next
  case (parsed body json_result)
  let ?cl = "self\<lparr>state := PNone, attributes := Map.empty,
                   rest := (rest self)\<lparr>data := Some body\<rparr>\<rparr>"
  note eq = update_rest_parsed[where net = net and self = self and loads = loads and ucd = ucd, OF parsed]
  show ?thesis
  proof (cases "getitem json_result ''ok''")
    case (Inl e)
    with assms show ?thesis by (simp add: eq Let_def)
  next
    case ok: (Inr ok)
    show ?thesis
    proof (cases "truthy ok")
      case False
      with ok show ?thesis by (simp add: eq Let_def)
    next
      case True
      show ?thesis
      proof (cases "getitem json_result ''stations''")
        case (Inl e)
        with ok True assms show ?thesis by (simp add: eq Let_def)
      next
        case (Inr stations)
        then obtain envelope where res: "json_result = PDict envelope"
          and st: "map_of envelope ''stations'' = Some stations"
          by (auto simp: getitem_Inr)
        obtain self' where fin: "if_stations ucd stations ?cl = (self', None)"
          using ok True Inr assms by (cases "if_stations ucd stations ?cl") (simp add: eq Let_def)
        have upd: "final (update_rest ucd loads net self) = self'"
          using ok True Inr fin by (simp add: eq Let_def)
        show ?thesis
        proof (cases "truthy stations")
          case False
          with fin have "self' = ?cl" by (simp add: if_stations_def)
          with upd show ?thesis by simp
        next
          case True
          with fin have "populate ucd stations ?cl = (self', None)" by (simp add: if_stations_def)
          from populate_None[OF this] obtain station others
            where "stations = PList (PDict station # others)"
              and "reading ucd station = Some (state self', attributes self')"
            by auto
          with parsed res st upd show ?thesis by auto
        qed
      qed
    qed
  qed
qed

section \<open>A valid response\<close>

lemma update_valid_response:
  assumes net: "net (request_of fmt self) = Response status_code (Some (PDict envelope))"
    and ok: "\<not> raise_for_status status_code"
    and st: "map_of envelope ''stations'' = Some (PList (PDict station # others))"
    and fields: "station_has station price brand street house_number is_open lat lng"
  shows "update ucd fmt net self =
     \<lparr> final = self\<lparr>state := price,
                      attributes :=
                        [ATTR_BRAND \<mapsto> PStr (title ucd brand),
                         ATTR_ADDRESS \<mapsto> PStr (title ucd street @ house_number),
                         ATTR_STATUS \<mapsto> PStr (if is_open then ascii ''open'' else ascii ''closed''),
                         ATTR_LATITUDE \<mapsto> lat,
                         ATTR_LONGITUDE \<mapsto> lng,
                         ATTR_ATTRIBUTION \<mapsto> PStr ATTRIBUTION]\<rparr>,
       logged = [], sent = [request_of fmt self], raised = None \<rparr>"
proof -
  from net ok have g:
    "get_stations fmt net (api self) (latitude self) (longitude self) (radius self)
       (fuel_type self) = (PDict envelope, [request_of fmt self], [])"
    unfolding request_of_def by (rule get_stations_json)
  from st have ne: "envelope \<noteq> []" by auto
  from fields have pop:
    "populate ucd (PList (PDict station # others)) (self\<lparr>state := PNone, attributes := Map.empty\<rparr>)
     = (self\<lparr>state := price,
              attributes :=
                [ATTR_BRAND \<mapsto> PStr (title ucd brand),
                 ATTR_ADDRESS \<mapsto> PStr (title ucd street @ house_number),
                 ATTR_STATUS \<mapsto> PStr (if is_open then ascii ''open'' else ascii ''closed''),
                 ATTR_LATITUDE \<mapsto> lat,
                 ATTR_LONGITUDE \<mapsto> lng,
                 ATTR_ATTRIBUTION \<mapsto> PStr ATTRIBUTION]\<rparr>, None)"
    by (simp add: station_has_def populate_valid[where is_open = "PBool is_open"])
  show ?thesis
    by (simp add: update_result[OF g] ne st if_stations_def pop)
qed

lemma update_rest_valid_response:
  assumes net: "net (rest_request (rest self)) = Some body" and "body \<noteq> []"
    and "loads body = Some (PDict envelope)"
    and ok: "map_of envelope ''ok'' = Some (PBool True)"
    and st: "map_of envelope ''stations'' = Some (PList (PDict station # others))"
    and fields: "station_has station price brand street house_number is_open lat lng"
  shows "update_rest ucd loads net self =
     \<lparr> final = self\<lparr>state := price,
                      attributes :=
                        [ATTR_BRAND \<mapsto> PStr (title ucd brand),
                         ATTR_ADDRESS \<mapsto> PStr (title ucd street @ house_number),
                         ATTR_STATUS \<mapsto> PStr (if is_open then ascii ''open'' else ascii ''closed''),
                         ATTR_LATITUDE \<mapsto> lat,
                         ATTR_LONGITUDE \<mapsto> lng,
                         ATTR_ATTRIBUTION \<mapsto> PStr ATTRIBUTION],
                      rest := (rest self)\<lparr>data := Some body\<rparr>\<rparr>,
       logged = [(DEBUG, ''Received stations: %s'')], sent = [rest_request (rest self)],
       raised = None \<rparr>"
proof -
  let ?cl = "self\<lparr>state := PNone, attributes := Map.empty, rest := (rest self)\<lparr>data := Some body\<rparr>\<rparr>"
  from fields have pop:
    "populate ucd (PList (PDict station # others)) ?cl
     = (?cl\<lparr>state := price,
              attributes := (attributes ?cl)
                (ATTR_BRAND \<mapsto> PStr (title ucd brand),
                 ATTR_ADDRESS \<mapsto> PStr (title ucd street @ house_number),
                 ATTR_STATUS \<mapsto> PStr (if is_open then ascii ''open'' else ascii ''closed''),
                 ATTR_LATITUDE \<mapsto> lat,
                 ATTR_LONGITUDE \<mapsto> lng,
                 ATTR_ATTRIBUTION \<mapsto> PStr ATTRIBUTION)\<rparr>, None)"
    by (simp add: station_has_def populate_valid[where is_open = "PBool is_open"])
  show ?thesis
    using ok st
    by (simp add: update_rest_parsed[where net = net and self = self and loads = loads, OF assms(1-3)]
          Let_def if_stations_def pop)
qed

text \<open>
  C1. For every valid response with a non-empty station list, \<open>update\<close> sets the state
  to the price of the first station and the attributes to the title-cased brand, the
  title-cased street followed directly by the house number, the status "open" or "closed"
  after the open flag, the station's latitude and longitude, and the attribution string.
  In \<open>custom_components/tankerkoenig/sensor.py\<close> a response is valid whatever its
  \<open>ok\<close> field; in \<open>sensor.py\<close> a valid response has \<open>ok\<close> true.
\<close>

theorem update_sets_reading_of_first_station:
  "(net (request_of fmt self) = Response status_code (Some (PDict envelope))
      \<and> \<not> raise_for_status status_code
      \<and> map_of envelope ''stations'' = Some (PList (PDict station # others))
      \<and> station_has station price brand street house_number is_open lat lng
    \<longrightarrow> state (final (update ucd fmt net self)) = price
        \<and> attributes (final (update ucd fmt net self)) =
             [ATTR_BRAND \<mapsto> PStr (title ucd brand),
              ATTR_ADDRESS \<mapsto> PStr (title ucd street @ house_number),
              ATTR_STATUS \<mapsto> PStr (if is_open then ascii ''open'' else ascii ''closed''),
              ATTR_LATITUDE \<mapsto> lat,
              ATTR_LONGITUDE \<mapsto> lng,
              ATTR_ATTRIBUTION \<mapsto> PStr ATTRIBUTION]
        \<and> raised (update ucd fmt net self) = None)
   \<and> (rest_net (rest_request (rest rest_self)) = Some body \<and> body \<noteq> []
      \<and> loads body = Some (PDict rest_envelope)
      \<and> map_of rest_envelope ''ok'' = Some (PBool True)
      \<and> map_of rest_envelope ''stations'' = Some (PList (PDict station # others))
      \<and> station_has station price brand street house_number is_open lat lng
    \<longrightarrow> state (final (update_rest ucd loads rest_net rest_self)) = price
        \<and> attributes (final (update_rest ucd loads rest_net rest_self)) =
             [ATTR_BRAND \<mapsto> PStr (title ucd brand),
              ATTR_ADDRESS \<mapsto> PStr (title ucd street @ house_number),
              ATTR_STATUS \<mapsto> PStr (if is_open then ascii ''open'' else ascii ''closed''),
              ATTR_LATITUDE \<mapsto> lat,
              ATTR_LONGITUDE \<mapsto> lng,
              ATTR_ATTRIBUTION \<mapsto> PStr ATTRIBUTION]
        \<and> raised (update_rest ucd loads rest_net rest_self) = None)"
proof (intro conjI impI)
  assume h: "net (request_of fmt self) = Response status_code (Some (PDict envelope))
      \<and> \<not> raise_for_status status_code
      \<and> map_of envelope ''stations'' = Some (PList (PDict station # others))
      \<and> station_has station price brand street house_number is_open lat lng"
  then have eq: "update ucd fmt net self = \<lparr> final = self\<lparr>state := price,
                      attributes :=
                        [ATTR_BRAND \<mapsto> PStr (title ucd brand),
                         ATTR_ADDRESS \<mapsto> PStr (title ucd street @ house_number),
                         ATTR_STATUS \<mapsto> PStr (if is_open then ascii ''open'' else ascii ''closed''),
                         ATTR_LATITUDE \<mapsto> lat,
                         ATTR_LONGITUDE \<mapsto> lng,
                         ATTR_ATTRIBUTION \<mapsto> PStr ATTRIBUTION]\<rparr>,
       logged = [], sent = [request_of fmt self], raised = None \<rparr>"
    by (intro update_valid_response) blast+
  show "state (final (update ucd fmt net self)) = price" by (simp add: eq)
  show "attributes (final (update ucd fmt net self)) =
             [ATTR_BRAND \<mapsto> PStr (title ucd brand),
              ATTR_ADDRESS \<mapsto> PStr (title ucd street @ house_number),
              ATTR_STATUS \<mapsto> PStr (if is_open then ascii ''open'' else ascii ''closed''),
              ATTR_LATITUDE \<mapsto> lat,
              ATTR_LONGITUDE \<mapsto> lng,
              ATTR_ATTRIBUTION \<mapsto> PStr ATTRIBUTION]" by (simp add: eq)
  show "raised (update ucd fmt net self) = None" by (simp add: eq)
next
  assume h: "rest_net (rest_request (rest rest_self)) = Some body \<and> body \<noteq> []
      \<and> loads body = Some (PDict rest_envelope)
      \<and> map_of rest_envelope ''ok'' = Some (PBool True)
      \<and> map_of rest_envelope ''stations'' = Some (PList (PDict station # others))
      \<and> station_has station price brand street house_number is_open lat lng"
  then have eq: "update_rest ucd loads rest_net rest_self =
     \<lparr> final = rest_self\<lparr>state := price,
                      attributes :=
                        [ATTR_BRAND \<mapsto> PStr (title ucd brand),
                         ATTR_ADDRESS \<mapsto> PStr (title ucd street @ house_number),
                         ATTR_STATUS \<mapsto> PStr (if is_open then ascii ''open'' else ascii ''closed''),
                         ATTR_LATITUDE \<mapsto> lat,
                         ATTR_LONGITUDE \<mapsto> lng,
                         ATTR_ATTRIBUTION \<mapsto> PStr ATTRIBUTION],
                      rest := (rest rest_self)\<lparr>data := Some body\<rparr>\<rparr>,
       logged = [(DEBUG, ''Received stations: %s'')], sent = [rest_request (rest rest_self)],
       raised = None \<rparr>"
    by (intro update_rest_valid_response) blast+
  show "state (final (update_rest ucd loads rest_net rest_self)) = price" by (simp add: eq)
  show "attributes (final (update_rest ucd loads rest_net rest_self)) =
             [ATTR_BRAND \<mapsto> PStr (title ucd brand),
              ATTR_ADDRESS \<mapsto> PStr (title ucd street @ house_number),
              ATTR_STATUS \<mapsto> PStr (if is_open then ascii ''open'' else ascii ''closed''),
              ATTR_LATITUDE \<mapsto> lat,
              ATTR_LONGITUDE \<mapsto> lng,
              ATTR_ATTRIBUTION \<mapsto> PStr ATTRIBUTION]" by (simp add: eq)
  show "raised (update_rest ucd loads rest_net rest_self) = None" by (simp add: eq)
qed

lemmas demo_simps =
  always_def demo_sensor_def demo_rest_sensor_def demo_station_def demo_envelope_def
  setup_platform_def setup_platform_rest_def request_of_def rest_request_def
  raise_for_status_def station_has_def demo_body_def

theorem update_sets_reading_of_first_station_witness:
  "(always (Response 200 (Some (PDict (demo_envelope False [PDict demo_station]))))
        (request_of id demo_sensor)
      = Response 200 (Some (PDict (demo_envelope False [PDict demo_station])))
    \<and> \<not> raise_for_status 200
    \<and> map_of (demo_envelope False [PDict demo_station]) ''stations''
        = Some (PList (PDict demo_station # []))
    \<and> station_has demo_station (PFloat (Finite 1.679)) (ascii ''aral'') (ascii ''hauptstrasse'')
        (ascii ''12'') True (PFloat (Finite 50.1)) (PFloat (Finite 8.6)))
   \<and> state (final (update ucd_excerpt id
        (always (Response 200 (Some (PDict (demo_envelope False [PDict demo_station])))))
        demo_sensor)) = PFloat (Finite 1.679)
   \<and> attributes (final (update ucd_excerpt id
        (always (Response 200 (Some (PDict (demo_envelope False [PDict demo_station])))))
        demo_sensor)) =
        [ATTR_BRAND \<mapsto> PStr (ascii ''Aral''),
         ATTR_ADDRESS \<mapsto> PStr (ascii ''Hauptstrasse12''),
         ATTR_STATUS \<mapsto> PStr (ascii ''open''),
         ATTR_LATITUDE \<mapsto> PFloat (Finite 50.1),
         ATTR_LONGITUDE \<mapsto> PFloat (Finite 8.6),
         ATTR_ATTRIBUTION \<mapsto> PStr ATTRIBUTION]
   \<and> (always (Some demo_body) (rest_request (rest demo_rest_sensor)) = Some demo_body
      \<and> demo_body \<noteq> []
      \<and> always (Some (PDict (demo_envelope True [PDict demo_station]))) demo_body
          = Some (PDict (demo_envelope True [PDict demo_station]))
      \<and> map_of (demo_envelope True [PDict demo_station]) ''ok'' = Some (PBool True))
   \<and> state (final (update_rest ucd_excerpt
        (always (Some (PDict (demo_envelope True [PDict demo_station]))))
        (always (Some demo_body)) demo_rest_sensor)) = PFloat (Finite 1.679)
   \<and> attributes (final (update_rest ucd_excerpt
        (always (Some (PDict (demo_envelope True [PDict demo_station]))))
        (always (Some demo_body)) demo_rest_sensor)) ATTR_ADDRESS
        = Some (PStr (ascii ''Hauptstrasse12''))"
proof -
  have hyps: "always (Response 200 (Some (PDict (demo_envelope False [PDict demo_station]))))
        (request_of id demo_sensor)
      = Response 200 (Some (PDict (demo_envelope False [PDict demo_station])))
    \<and> \<not> raise_for_status 200
    \<and> map_of (demo_envelope False [PDict demo_station]) ''stations''
        = Some (PList (PDict demo_station # []))
    \<and> station_has demo_station (PFloat (Finite 1.679)) (ascii ''aral'') (ascii ''hauptstrasse'')
        (ascii ''12'') True (PFloat (Finite 50.1)) (PFloat (Finite 8.6))"
    by (simp add: demo_simps)
  have rest_hyps: "always (Some demo_body) (rest_request (rest demo_rest_sensor)) = Some demo_body
      \<and> demo_body \<noteq> []
      \<and> always (Some (PDict (demo_envelope True [PDict demo_station]))) demo_body
          = Some (PDict (demo_envelope True [PDict demo_station]))
      \<and> map_of (demo_envelope True [PDict demo_station]) ''ok'' = Some (PBool True)
      \<and> map_of (demo_envelope True [PDict demo_station]) ''stations''
        = Some (PList (PDict demo_station # []))
      \<and> station_has demo_station (PFloat (Finite 1.679)) (ascii ''aral'') (ascii ''hauptstrasse'')
        (ascii ''12'') True (PFloat (Finite 50.1)) (PFloat (Finite 8.6))"
    by (simp add: demo_simps ascii_def)
  have t1: "title ucd_excerpt (ascii ''aral'') = ascii ''Aral''"
    by (simp add: title_def ascii_def ucd_excerpt_def lower_ucs4_def)
  have t2: "title ucd_excerpt (ascii ''hauptstrasse'') @ ascii ''12'' = ascii ''Hauptstrasse12''"
    by (simp add: title_def ascii_def ucd_excerpt_def lower_ucs4_def)
  note inst = update_sets_reading_of_first_station
    [where net = "always (Response 200 (Some (PDict (demo_envelope False [PDict demo_station]))))"
       and fmt = id and self = demo_sensor and status_code = 200
       and envelope = "demo_envelope False [PDict demo_station]"
       and station = demo_station and others = "[]"
       and price = "PFloat (Finite 1.679)" and brand = "ascii ''aral''"
       and street = "ascii ''hauptstrasse''" and house_number = "ascii ''12''"
       and is_open = True and lat = "PFloat (Finite 50.1)" and lng = "PFloat (Finite 8.6)"
       and ucd = ucd_excerpt
       and rest_net = "always (Some demo_body)" and rest_self = demo_rest_sensor
       and body = demo_body
       and loads = "always (Some (PDict (demo_envelope True [PDict demo_station])))"
       and rest_envelope = "demo_envelope True [PDict demo_station]"]
  from inst hyps rest_hyps show ?thesis
    by (simp add: t1 t2 ATTR_BRAND_def ATTR_ADDRESS_def ATTR_STATUS_def ATTR_LATITUDE_def
          ATTR_LONGITUDE_def ATTR_ATTRIBUTION_def)
qed

section \<open>State and attributes go together\<close>

text \<open>
  C2, as amended. Whenever \<open>update\<close> returns without raising, state and attributes are
  either both cleared or both taken from the first station record of the response: the
  state is its price and the attributes are the six the record gives. (A station record
  that lacks a key makes \<open>update\<close> raise, and then the state may be set while the
  attributes are not.)
\<close>

theorem update_all_or_nothing:
  "(raised (update ucd fmt net self) = None
    \<longrightarrow> cleared (final (update ucd fmt net self))
        \<or> (\<exists>status_code envelope station others.
              net (request_of fmt self) = Response status_code (Some (PDict envelope))
              \<and> map_of envelope ''stations'' = Some (PList (PDict station # others))
              \<and> reading ucd station
                  = Some (state (final (update ucd fmt net self)),
                          attributes (final (update ucd fmt net self)))))
   \<and> (raised (update_rest ucd loads rest_net rest_self) = None
    \<longrightarrow> cleared (final (update_rest ucd loads rest_net rest_self))
        \<or> (\<exists>body envelope station others.
              rest_net (rest_request (rest rest_self)) = Some body
              \<and> loads body = Some (PDict envelope)
              \<and> map_of envelope ''stations'' = Some (PList (PDict station # others))
              \<and> reading ucd station
                  = Some (state (final (update_rest ucd loads rest_net rest_self)),
                          attributes (final (update_rest ucd loads rest_net rest_self)))))"
  unfolding cleared_def
  using update_no_raise[of ucd fmt net self] update_rest_no_raise[of ucd loads rest_net rest_self]
  by blast

lemmas run_simps =
  update_def get_stations_def stations_request_def if_stations_def populate_def
  station_field_def bind_def assign_state_def assign_attribute_def Let_def
  update_rest_def RestData_update_def

theorem update_all_or_nothing_witness:
  "raised (update ucd_excerpt id
      (always (Response 200 (Some (PDict (demo_envelope True [PDict demo_station])))))
      demo_sensor) = None
   \<and> (cleared (final (update ucd_excerpt id
          (always (Response 200 (Some (PDict (demo_envelope True [PDict demo_station])))))
          demo_sensor))
      \<or> (\<exists>status_code envelope station others.
            always (Response 200 (Some (PDict (demo_envelope True [PDict demo_station]))))
              (request_of id demo_sensor) = Response status_code (Some (PDict envelope))
            \<and> map_of envelope ''stations'' = Some (PList (PDict station # others))
            \<and> reading ucd_excerpt station
                = Some (state (final (update ucd_excerpt id
                          (always (Response 200
                             (Some (PDict (demo_envelope True [PDict demo_station])))))
                          demo_sensor)),
                        attributes (final (update ucd_excerpt id
                          (always (Response 200
                             (Some (PDict (demo_envelope True [PDict demo_station])))))
                          demo_sensor)))))
   \<and> raised (update_rest ucd_excerpt (always None) (always (Some demo_body)) demo_rest_sensor)
       = None
   \<and> cleared (final (update_rest ucd_excerpt (always None) (always (Some demo_body))
        demo_rest_sensor))"
proof -
  have r: "raised (update ucd_excerpt id
      (always (Response 200 (Some (PDict (demo_envelope True [PDict demo_station])))))
      demo_sensor) = None"
    by (simp add: run_simps demo_simps ascii_def)
  have r': "raised (update_rest ucd_excerpt (always None) (always (Some demo_body))
      demo_rest_sensor) = None"
    by (simp add: run_simps demo_simps ascii_def)
  have c': "cleared (final (update_rest ucd_excerpt (always None) (always (Some demo_body))
        demo_rest_sensor))"
    by (simp add: run_simps demo_simps ascii_def cleared_def)
  from r r' c' update_all_or_nothing
    [where ucd = ucd_excerpt and fmt = id and self = demo_sensor
       and net = "always (Response 200 (Some (PDict (demo_envelope True [PDict demo_station]))))"
       and loads = "always None" and rest_net = "always (Some demo_body)"
       and rest_self = demo_rest_sensor]
  show ?thesis by blast
qed

theorem update_partial_counterexample:
  "state (final (update ucd_excerpt id
      (always (Response 200 (Some (PDict (demo_envelope True [PDict price_only])))))
      demo_sensor)) = PFloat (Finite 1.5)
   \<and> attributes (final (update ucd_excerpt id
      (always (Response 200 (Some (PDict (demo_envelope True [PDict price_only])))))
      demo_sensor)) = Map.empty
   \<and> raised (update ucd_excerpt id
      (always (Response 200 (Some (PDict (demo_envelope True [PDict price_only])))))
      demo_sensor) = Some KeyError"
  by (simp add: run_simps demo_simps price_only_def)

section \<open>The \<open>ok\<close> flag\<close>

lemma update_rest_not_ok:
  assumes "net (rest_request (rest self)) = Some body" and "body \<noteq> []"
    and "loads body = Some (PDict envelope)"
    and "map_of envelope ''ok'' = Some ok" and "\<not> truthy ok"
  shows "update_rest ucd loads net self =
     \<lparr> final = self\<lparr>state := PNone, attributes := Map.empty,
                      rest := (rest self)\<lparr>data := Some body\<rparr>\<rparr>,
       logged = [], sent = [rest_request (rest self)], raised = None \<rparr>"
  using assms(4,5)
  by (simp add: update_rest_parsed[where net = net and self = self and loads = loads, OF assms(1-3)]
        Let_def)

lemma update_state_price:
  assumes net: "net (request_of fmt self) = Response status_code (Some (PDict envelope))"
    and ok: "\<not> raise_for_status status_code"
    and st: "map_of envelope ''stations'' = Some (PList (PDict station # others))"
    and price: "map_of station ''price'' = Some price"
  shows "state (final (update ucd fmt net self)) = price"
proof -
  from net ok have g:
    "get_stations fmt net (api self) (latitude self) (longitude self) (radius self)
       (fuel_type self) = (PDict envelope, [request_of fmt self], [])"
    unfolding request_of_def by (rule get_stations_json)
  from st have ne: "envelope \<noteq> []" by auto
  show ?thesis
    by (simp add: update_result[OF g] ne st if_stations_def populate_price[OF price])
qed

text \<open>
  C9. In \<open>custom_components/tankerkoenig/sensor.py\<close> the \<open>ok\<close> field is never read:
  a result with a non-empty station list gives the state the price of its first station,
  whatever \<open>ok\<close> is, false included. In \<open>sensor.py\<close> a decoded response whose \<open>ok\<close>
  field is false leaves state and attributes cleared, whatever its station list.
\<close>

theorem ok_flag_read_by_one_variant_only:
  "(net (request_of fmt self) = Response status_code (Some (PDict envelope))
      \<and> \<not> raise_for_status status_code
      \<and> map_of envelope ''stations'' = Some (PList (PDict station # others))
      \<and> map_of station ''price'' = Some price
    \<longrightarrow> state (final (update ucd fmt net self)) = price)
   \<and> (rest_net (rest_request (rest rest_self)) = Some body \<and> body \<noteq> []
      \<and> loads body = Some (PDict rest_envelope)
      \<and> map_of rest_envelope ''ok'' = Some (PBool False)
    \<longrightarrow> cleared (final (update_rest ucd loads rest_net rest_self))
        \<and> raised (update_rest ucd loads rest_net rest_self) = None)"
proof (intro conjI impI)
  assume "net (request_of fmt self) = Response status_code (Some (PDict envelope))
      \<and> \<not> raise_for_status status_code
      \<and> map_of envelope ''stations'' = Some (PList (PDict station # others))
      \<and> map_of station ''price'' = Some price"
  then show "state (final (update ucd fmt net self)) = price"
    by (intro update_state_price) blast+
next
  assume h: "rest_net (rest_request (rest rest_self)) = Some body \<and> body \<noteq> []
      \<and> loads body = Some (PDict rest_envelope)
      \<and> map_of rest_envelope ''ok'' = Some (PBool False)"
  have eq: "update_rest ucd loads rest_net rest_self =
     \<lparr> final = rest_self\<lparr>state := PNone, attributes := Map.empty,
                      rest := (rest rest_self)\<lparr>data := Some body\<rparr>\<rparr>,
       logged = [], sent = [rest_request (rest rest_self)], raised = None \<rparr>"
    by (rule update_rest_not_ok[where ok = "PBool False" and envelope = rest_envelope])
       (use h in simp_all)
  show "cleared (final (update_rest ucd loads rest_net rest_self))"
    by (simp add: eq cleared_def)
  show "raised (update_rest ucd loads rest_net rest_self) = None"
    by (simp add: eq)
qed

theorem ok_flag_read_by_one_variant_only_witness:
  "(always (Response 200 (Some (PDict (demo_envelope False [PDict demo_station]))))
        (request_of id demo_sensor)
      = Response 200 (Some (PDict (demo_envelope False [PDict demo_station])))
    \<and> \<not> raise_for_status 200
    \<and> map_of (demo_envelope False [PDict demo_station]) ''ok'' = Some (PBool False)
    \<and> map_of (demo_envelope False [PDict demo_station]) ''stations''
        = Some (PList (PDict demo_station # []))
    \<and> map_of demo_station ''price'' = Some (PFloat (Finite 1.679)))
   \<and> state (final (update ucd_excerpt id
        (always (Response 200 (Some (PDict (demo_envelope False [PDict demo_station])))))
        demo_sensor)) = PFloat (Finite 1.679)
   \<and> (always (Some demo_body) (rest_request (rest demo_rest_sensor)) = Some demo_body
      \<and> demo_body \<noteq> []
      \<and> always (Some (PDict (demo_envelope False [PDict demo_station]))) demo_body
          = Some (PDict (demo_envelope False [PDict demo_station])))
   \<and> cleared (final (update_rest ucd_excerpt
        (always (Some (PDict (demo_envelope False [PDict demo_station]))))
        (always (Some demo_body)) demo_rest_sensor))
   \<and> raised (update_rest ucd_excerpt
        (always (Some (PDict (demo_envelope False [PDict demo_station]))))
        (always (Some demo_body)) demo_rest_sensor) = None"
proof -
  have hyps: "always (Response 200 (Some (PDict (demo_envelope False [PDict demo_station]))))
        (request_of id demo_sensor)
      = Response 200 (Some (PDict (demo_envelope False [PDict demo_station])))
    \<and> \<not> raise_for_status 200
    \<and> map_of (demo_envelope False [PDict demo_station]) ''ok'' = Some (PBool False)
    \<and> map_of (demo_envelope False [PDict demo_station]) ''stations''
        = Some (PList (PDict demo_station # []))
    \<and> map_of demo_station ''price'' = Some (PFloat (Finite 1.679))"
    by (simp add: demo_simps)
  have rest_hyps: "always (Some demo_body) (rest_request (rest demo_rest_sensor)) = Some demo_body
      \<and> demo_body \<noteq> []
      \<and> always (Some (PDict (demo_envelope False [PDict demo_station]))) demo_body
          = Some (PDict (demo_envelope False [PDict demo_station]))"
    by (simp add: demo_simps ascii_def)
  from hyps rest_hyps ok_flag_read_by_one_variant_only
    [where net = "always (Response 200 (Some (PDict (demo_envelope False [PDict demo_station]))))"
       and fmt = id and self = demo_sensor and status_code = 200
       and envelope = "demo_envelope False [PDict demo_station]"
       and station = demo_station and others = "[]" and price = "PFloat (Finite 1.679)"
       and ucd = ucd_excerpt
       and rest_net = "always (Some demo_body)" and rest_self = demo_rest_sensor
       and body = demo_body
       and loads = "always (Some (PDict (demo_envelope False [PDict demo_station])))"
       and rest_envelope = "demo_envelope False [PDict demo_station]"]
  show ?thesis by simp
qed

section \<open>What an update leaves alone\<close>

text \<open>
  C10. An \<open>update\<close> changes nothing of the sensor but state and attributes: name, icon,
  unit of measurement, device class, API key, latitude, longitude, radius and fuel type
  are afterwards what they were, whatever the network answers. The sensor of
  \<open>sensor.py\<close> holds its configuration in the request of its \<open>RestData\<close>, and that,
  its name, icon and unit are as they were.
\<close>

theorem update_frame_condition:
  "name (final (update ucd fmt net self)) = name self
   \<and> icon (final (update ucd fmt net self)) = icon self
   \<and> unit_of_measurement (final (update ucd fmt net self)) = unit_of_measurement self
   \<and> device_class (final (update ucd fmt net self)) = device_class self
   \<and> api (final (update ucd fmt net self)) = api self
   \<and> latitude (final (update ucd fmt net self)) = latitude self
   \<and> longitude (final (update ucd fmt net self)) = longitude self
   \<and> radius (final (update ucd fmt net self)) = radius self
   \<and> fuel_type (final (update ucd fmt net self)) = fuel_type self
   \<and> name (final (update_rest ucd loads rest_net rest_self)) = name rest_self
   \<and> icon (final (update_rest ucd loads rest_net rest_self)) = icon rest_self
   \<and> unit_of_measurement_rest (final (update_rest ucd loads rest_net rest_self))
       = unit_of_measurement_rest rest_self
   \<and> rest_request (rest (final (update_rest ucd loads rest_net rest_self)))
       = rest_request (rest rest_self)
   \<and> auth (rest (final (update_rest ucd loads rest_net rest_self))) = auth (rest rest_self)
   \<and> headers (rest (final (update_rest ucd loads rest_net rest_self))) = headers (rest rest_self)
   \<and> payload (rest (final (update_rest ucd loads rest_net rest_self))) = payload (rest rest_self)"
proof -
  obtain x a where f: "final (update ucd fmt net self) = self\<lparr>state := x, attributes := a\<rparr>"
    using update_frame[of ucd fmt net self] by blast
  obtain x' a' d where f': "final (update_rest ucd loads rest_net rest_self)
      = rest_self\<lparr>state := x', attributes := a', rest := (rest rest_self)\<lparr>data := d\<rparr>\<rparr>"
    using update_rest_frame[of ucd loads rest_net rest_self] by blast
  show ?thesis
    by (simp add: f f' icon_def unit_of_measurement_def device_class_def
          unit_of_measurement_rest_def rest_request_def)
qed

section \<open>Failures of the fetch\<close>

text \<open>
  C4, as amended. \<open>get_stations\<close> returns \<open>None\<close>, with an error logged, when the
  request raises, when the status code is a client or server error (400 to 599, the codes
  for which \<open>raise_for_status\<close> raises), and when the body is not JSON; for every other
  status code, not only 2xx, it returns the decoded body. No exception leaves it.
\<close>

theorem get_stations_none_or_body:
  "(net (stations_request fmt a lat lng rad fuel) = RequestException
    \<longrightarrow> fst (get_stations fmt net a lat lng rad fuel) = PNone
        \<and> has_level ERROR (snd (snd (get_stations fmt net a lat lng rad fuel))))
   \<and> (net (stations_request fmt a lat lng rad fuel) = Response status_code body
      \<and> raise_for_status status_code
    \<longrightarrow> fst (get_stations fmt net a lat lng rad fuel) = PNone
        \<and> has_level ERROR (snd (snd (get_stations fmt net a lat lng rad fuel))))
   \<and> (net (stations_request fmt a lat lng rad fuel) = Response status_code None
    \<longrightarrow> fst (get_stations fmt net a lat lng rad fuel) = PNone
        \<and> has_level ERROR (snd (snd (get_stations fmt net a lat lng rad fuel))))
   \<and> (net (stations_request fmt a lat lng rad fuel) = Response status_code (Some json)
      \<and> \<not> raise_for_status status_code
    \<longrightarrow> fst (get_stations fmt net a lat lng rad fuel) = json)"
  by (simp add: get_stations_def has_level_def Let_def)

theorem get_stations_none_or_body_witness:
  "fst (get_stations id (always RequestException) \<lparr>api_key = ascii ''key''\<rparr>
          (ascii ''50.1'') (ascii ''8.6'') (ascii ''1.5'') (ascii ''e5'')) = PNone
   \<and> (raise_for_status 404
      \<and> fst (get_stations id (always (Response 404 (Some (PDict (demo_envelope False [])))))
            \<lparr>api_key = ascii ''key''\<rparr>
            (ascii ''50.1'') (ascii ''8.6'') (ascii ''1.5'') (ascii ''e5'')) = PNone)
   \<and> fst (get_stations id (always (Response 200 None)) \<lparr>api_key = ascii ''key''\<rparr>
          (ascii ''50.1'') (ascii ''8.6'') (ascii ''1.5'') (ascii ''e5'')) = PNone
   \<and> (\<not> raise_for_status 200
      \<and> fst (get_stations id
            (always (Response 200 (Some (PDict (demo_envelope True [PDict demo_station])))))
            \<lparr>api_key = ascii ''key''\<rparr>
            (ascii ''50.1'') (ascii ''8.6'') (ascii ''1.5'') (ascii ''e5''))
          = PDict (demo_envelope True [PDict demo_station]))"
proof -
  note t = get_stations_none_or_body[where fmt = id and a = "\<lparr>api_key = ascii ''key''\<rparr>"
      and lat = "ascii ''50.1''" and lng = "ascii ''8.6''" and rad = "ascii ''1.5''"
      and fuel = "ascii ''e5''"]
  have s: "raise_for_status 404" "\<not> raise_for_status 200"
    by (simp_all add: raise_for_status_def)
  from t[where net = "always RequestException"]
  have c1: "fst (get_stations id (always RequestException) \<lparr>api_key = ascii ''key''\<rparr>
          (ascii ''50.1'') (ascii ''8.6'') (ascii ''1.5'') (ascii ''e5'')) = PNone"
    by (simp add: always_def)
  from t[where net = "always (Response 404 (Some (PDict (demo_envelope False []))))"
      and status_code = 404 and body = "Some (PDict (demo_envelope False []))"] s
  have c2: "fst (get_stations id (always (Response 404 (Some (PDict (demo_envelope False [])))))
            \<lparr>api_key = ascii ''key''\<rparr>
            (ascii ''50.1'') (ascii ''8.6'') (ascii ''1.5'') (ascii ''e5'')) = PNone"
    by (simp add: always_def)
  from t[where net = "always (Response 200 None)" and status_code = 200]
  have c3: "fst (get_stations id (always (Response 200 None)) \<lparr>api_key = ascii ''key''\<rparr>
          (ascii ''50.1'') (ascii ''8.6'') (ascii ''1.5'') (ascii ''e5'')) = PNone"
    by (simp add: always_def)
  from t[where net = "always (Response 200 (Some (PDict (demo_envelope True [PDict demo_station]))))"
      and status_code = 200 and json = "PDict (demo_envelope True [PDict demo_station])"] s
  have c4: "fst (get_stations id
            (always (Response 200 (Some (PDict (demo_envelope True [PDict demo_station])))))
            \<lparr>api_key = ascii ''key''\<rparr>
            (ascii ''50.1'') (ascii ''8.6'') (ascii ''1.5'') (ascii ''e5''))
          = PDict (demo_envelope True [PDict demo_station])"
    by (simp add: always_def)
  from s c1 c2 c3 c4 show ?thesis by blast
qed

theorem get_stations_redirect_counterexample:
  "\<not> (200 \<le> (300::nat) \<and> (300::nat) < 300)
   \<and> fst (get_stations id
        (always (Response 300 (Some (PDict (demo_envelope True [PDict demo_station])))))
        \<lparr>api_key = ascii ''key''\<rparr>
        (ascii ''50.1'') (ascii ''8.6'') (ascii ''1.5'') (ascii ''e5''))
      = PDict (demo_envelope True [PDict demo_station])"
  by (simp add: get_stations_def always_def raise_for_status_def Let_def)

section \<open>A result without stations\<close>

lemma update_missing_stations:
  assumes net: "net (request_of fmt self) = Response status_code (Some (PDict envelope))"
    and ok: "\<not> raise_for_status status_code"
    and ne: "envelope \<noteq> []"
    and st: "map_of envelope ''stations'' = None"
  shows "update ucd fmt net self =
     \<lparr> final = self\<lparr>state := PNone, attributes := Map.empty\<rparr>,
       logged = [(ERROR, ''Erroneous result found when expecting list of stations: %s'')],
       sent = [request_of fmt self], raised = None \<rparr>"
proof -
  from net ok have g:
    "get_stations fmt net (api self) (latitude self) (longitude self) (radius self)
       (fuel_type self) = (PDict envelope, [request_of fmt self], [])"
    unfolding request_of_def by (rule get_stations_json)
  show ?thesis
    by (simp add: update_result[OF g] ne st)
qed

lemma update_empty_stations:
  assumes net: "net (request_of fmt self) = Response status_code (Some (PDict envelope))"
    and ok: "\<not> raise_for_status status_code"
    and st: "map_of envelope ''stations'' = Some (PList [])"
  shows "update ucd fmt net self =
     \<lparr> final = self\<lparr>state := PNone, attributes := Map.empty\<rparr>,
       logged = [], sent = [request_of fmt self], raised = None \<rparr>"
proof -
  from net ok have g:
    "get_stations fmt net (api self) (latitude self) (longitude self) (radius self)
       (fuel_type self) = (PDict envelope, [request_of fmt self], [])"
    unfolding request_of_def by (rule get_stations_json)
  from st have ne: "envelope \<noteq> []" by auto
  show ?thesis
    by (simp add: update_result[OF g] ne st if_stations_def)
qed

lemma update_no_result:
  assumes g: "get_stations fmt net (api self) (latitude self) (longitude self) (radius self)
       (fuel_type self) = (PNone, [request_of fmt self], [(ERROR, msg)])"
  shows "update ucd fmt net self =
     \<lparr> final = self\<lparr>state := PNone, attributes := Map.empty\<rparr>,
       logged = [(ERROR, msg), (ERROR, ''Empty result found when expecting list of stations'')],
       sent = [request_of fmt self], raised = None \<rparr>"
  by (simp add: update_result[OF g])

lemma update_failed_fetch:
  assumes "net (request_of fmt self) = RequestException
           \<or> (\<exists>status_code body. net (request_of fmt self) = Response status_code body
                 \<and> (raise_for_status status_code \<or> body = None))"
  shows "resolved (update ucd fmt net self) \<and> has_level ERROR (logged (update ucd fmt net self))"
proof -
  from assms have "\<exists>msg.
    get_stations fmt net (api self) (latitude self) (longitude self) (radius self)
       (fuel_type self) = (PNone, [request_of fmt self], [(ERROR, msg)])"
    unfolding request_of_def
    by (auto simp: get_stations_def Let_def)
  then obtain msg where
    "get_stations fmt net (api self) (latitude self) (longitude self) (radius self)
       (fuel_type self) = (PNone, [request_of fmt self], [(ERROR, msg)])" ..
  from update_no_result[OF this] show ?thesis
    by (simp add: resolved_def cleared_def has_level_def)
qed

text \<open>
  C5, as amended. In \<open>custom_components/tankerkoenig/sensor.py\<close>, for every non-empty
  decoded object that lacks \<open>stations\<close>, \<open>update\<close> logs an error, leaves state and
  attributes cleared and raises nothing. In \<open>sensor.py\<close>, for every decoded object whose
  \<open>ok\<close> field is there and false, \<open>update\<close> leaves state and attributes cleared and
  raises nothing, and it logs nothing.
\<close>

theorem missing_stations_leaves_sensor_cleared:
  "(net (request_of fmt self) = Response status_code (Some (PDict envelope))
      \<and> \<not> raise_for_status status_code
      \<and> envelope \<noteq> [] \<and> map_of envelope ''stations'' = None
    \<longrightarrow> has_level ERROR (logged (update ucd fmt net self))
        \<and> cleared (final (update ucd fmt net self))
        \<and> raised (update ucd fmt net self) = None)
   \<and> (rest_net (rest_request (rest rest_self)) = Some body \<and> body \<noteq> []
      \<and> loads body = Some (PDict rest_envelope)
      \<and> map_of rest_envelope ''ok'' = Some ok \<and> \<not> truthy ok
    \<longrightarrow> logged (update_rest ucd loads rest_net rest_self) = []
        \<and> cleared (final (update_rest ucd loads rest_net rest_self))
        \<and> raised (update_rest ucd loads rest_net rest_self) = None)"
proof (intro conjI impI)
  assume "net (request_of fmt self) = Response status_code (Some (PDict envelope))
      \<and> \<not> raise_for_status status_code
      \<and> envelope \<noteq> [] \<and> map_of envelope ''stations'' = None"
  then have eq: "update ucd fmt net self =
     \<lparr> final = self\<lparr>state := PNone, attributes := Map.empty\<rparr>,
       logged = [(ERROR, ''Erroneous result found when expecting list of stations: %s'')],
       sent = [request_of fmt self], raised = None \<rparr>"
    by (intro update_missing_stations) blast+
  show "has_level ERROR (logged (update ucd fmt net self))" by (simp add: eq has_level_def)
  show "cleared (final (update ucd fmt net self))" by (simp add: eq cleared_def)
  show "raised (update ucd fmt net self) = None" by (simp add: eq)
next
  assume h: "rest_net (rest_request (rest rest_self)) = Some body \<and> body \<noteq> []
      \<and> loads body = Some (PDict rest_envelope)
      \<and> map_of rest_envelope ''ok'' = Some ok \<and> \<not> truthy ok"
  have eq: "update_rest ucd loads rest_net rest_self =
     \<lparr> final = rest_self\<lparr>state := PNone, attributes := Map.empty,
                      rest := (rest rest_self)\<lparr>data := Some body\<rparr>\<rparr>,
       logged = [], sent = [rest_request (rest rest_self)], raised = None \<rparr>"
    by (rule update_rest_not_ok[where ok = ok and envelope = rest_envelope])
       (use h in simp_all)
  show "logged (update_rest ucd loads rest_net rest_self) = []" by (simp add: eq)
  show "cleared (final (update_rest ucd loads rest_net rest_self))"
    by (simp add: eq cleared_def)
  show "raised (update_rest ucd loads rest_net rest_self) = None" by (simp add: eq)
qed

theorem missing_stations_leaves_sensor_cleared_witness:
  "(always (Response 200 (Some (PDict [(''ok'', PBool True)]))) (request_of id demo_sensor)
      = Response 200 (Some (PDict [(''ok'', PBool True)]))
    \<and> \<not> raise_for_status 200
    \<and> [(''ok'', PBool True)] \<noteq> [] \<and> map_of [(''ok'', PBool True)] ''stations'' = None)
   \<and> has_level ERROR (logged (update ucd_excerpt id
        (always (Response 200 (Some (PDict [(''ok'', PBool True)])))) demo_sensor))
   \<and> cleared (final (update ucd_excerpt id
        (always (Response 200 (Some (PDict [(''ok'', PBool True)])))) demo_sensor))
   \<and> raised (update ucd_excerpt id
        (always (Response 200 (Some (PDict [(''ok'', PBool True)])))) demo_sensor) = None
   \<and> (always (Some ok_false_text) (rest_request (rest demo_rest_sensor)) = Some ok_false_text
      \<and> ok_false_text \<noteq> []
      \<and> decode_ok_false ok_false_text = Some (PDict [(''ok'', PBool False)])
      \<and> map_of [(''ok'', PBool False)] ''ok'' = Some (PBool False) \<and> \<not> truthy (PBool False))
   \<and> cleared (final (update_rest ucd_excerpt decode_ok_false (always (Some ok_false_text))
        demo_rest_sensor))
   \<and> raised (update_rest ucd_excerpt decode_ok_false (always (Some ok_false_text))
        demo_rest_sensor) = None"
proof -
  have hyps: "always (Response 200 (Some (PDict [(''ok'', PBool True)]))) (request_of id demo_sensor)
      = Response 200 (Some (PDict [(''ok'', PBool True)]))
    \<and> \<not> raise_for_status 200
    \<and> [(''ok'', PBool True)] \<noteq> [] \<and> map_of [(''ok'', PBool True)] ''stations'' = None"
    by (simp add: always_def raise_for_status_def)
  have rest_hyps: "always (Some ok_false_text) (rest_request (rest demo_rest_sensor)) = Some ok_false_text
      \<and> ok_false_text \<noteq> []
      \<and> decode_ok_false ok_false_text = Some (PDict [(''ok'', PBool False)])
      \<and> map_of [(''ok'', PBool False)] ''ok'' = Some (PBool False) \<and> \<not> truthy (PBool False)"
    by (simp add: always_def ok_false_text_def decode_ok_false_def)
  from hyps rest_hyps missing_stations_leaves_sensor_cleared
    [where net = "always (Response 200 (Some (PDict [(''ok'', PBool True)])))"
       and fmt = id and self = demo_sensor and status_code = 200
       and envelope = "[(''ok'', PBool True)]" and ucd = ucd_excerpt
       and rest_net = "always (Some ok_false_text)" and rest_self = demo_rest_sensor
       and body = ok_false_text and loads = decode_ok_false
       and rest_envelope = "[(''ok'', PBool False)]" and ok = "PBool False"]
  show ?thesis by blast
qed

theorem not_ok_without_stations_counterexample:
  "decode_ok_false ok_false_text = Some (PDict [(''ok'', PBool False)])
   \<and> map_of [(''ok'', PBool False)] ''stations'' = None
   \<and> logged (update_rest ucd_excerpt decode_ok_false (always (Some ok_false_text))
        demo_rest_sensor) = []"
  by (simp add: run_simps demo_simps ok_false_text_def decode_ok_false_def ascii_def)

section \<open>Every error kind\<close>

lemma update_rest_empty_stations:
  assumes "net (rest_request (rest self)) = Some body" and "body \<noteq> []"
    and "loads body = Some (PDict envelope)"
    and "map_of envelope ''ok'' = Some ok" and "truthy ok"
    and "map_of envelope ''stations'' = Some (PList [])"
  shows "update_rest ucd loads net self =
     \<lparr> final = self\<lparr>state := PNone, attributes := Map.empty,
                      rest := (rest self)\<lparr>data := Some body\<rparr>\<rparr>,
       logged = [(DEBUG, ''Received stations: %s'')], sent = [rest_request (rest self)],
       raised = None \<rparr>"
  using assms(4-6)
  by (simp add: update_rest_parsed[where net = net and self = self and loads = loads, OF assms(1-3)]
        Let_def if_stations_def)

text \<open>
  C6, as amended. A transport failure, an HTTP error status (400 to 599), a body that is
  not JSON and a result without \<open>stations\<close> are each logged at error level and resolved
  by clearing the sensor: nothing is raised and one request is sent, no second one. An
  empty station list is resolved in the same way and logs nothing. In \<open>sensor.py\<close> a
  missing or empty reply and a reply that is not JSON are logged at warning level and
  resolved by clearing the sensor; an empty station list is resolved too, with nothing
  logged at error or warning level.
\<close>

theorem every_failure_resolves_the_cycle:
  "(net (request_of fmt self) = RequestException
    \<longrightarrow> resolved (update ucd fmt net self)
        \<and> has_level ERROR (logged (update ucd fmt net self)))
   \<and> (net (request_of fmt self) = Response status_code reply_body
      \<and> raise_for_status status_code
    \<longrightarrow> resolved (update ucd fmt net self)
        \<and> has_level ERROR (logged (update ucd fmt net self)))
   \<and> (net (request_of fmt self) = Response status_code None
    \<longrightarrow> resolved (update ucd fmt net self)
        \<and> has_level ERROR (logged (update ucd fmt net self)))
   \<and> (net (request_of fmt self) = Response status_code (Some (PDict envelope))
      \<and> \<not> raise_for_status status_code
      \<and> envelope \<noteq> [] \<and> map_of envelope ''stations'' = None
    \<longrightarrow> resolved (update ucd fmt net self)
        \<and> has_level ERROR (logged (update ucd fmt net self)))
   \<and> (net (request_of fmt self) = Response status_code (Some (PDict envelope))
      \<and> \<not> raise_for_status status_code
      \<and> map_of envelope ''stations'' = Some (PList [])
    \<longrightarrow> resolved (update ucd fmt net self)
        \<and> logged (update ucd fmt net self) = [])
   \<and> (rest_net (rest_request (rest rest_self)) = None
      \<or> rest_net (rest_request (rest rest_self)) = Some []
    \<longrightarrow> resolved (update_rest ucd loads rest_net rest_self)
        \<and> has_level WARNING (logged (update_rest ucd loads rest_net rest_self)))
   \<and> (rest_net (rest_request (rest rest_self)) = Some body \<and> body \<noteq> []
      \<and> loads body = None
    \<longrightarrow> resolved (update_rest ucd loads rest_net rest_self)
        \<and> has_level WARNING (logged (update_rest ucd loads rest_net rest_self)))
   \<and> (rest_net (rest_request (rest rest_self)) = Some body \<and> body \<noteq> []
      \<and> loads body = Some (PDict rest_envelope)
      \<and> map_of rest_envelope ''ok'' = Some ok \<and> truthy ok
      \<and> map_of rest_envelope ''stations'' = Some (PList [])
    \<longrightarrow> resolved (update_rest ucd loads rest_net rest_self)
        \<and> \<not> has_level ERROR (logged (update_rest ucd loads rest_net rest_self))
        \<and> \<not> has_level WARNING (logged (update_rest ucd loads rest_net rest_self)))"
proof -
  have a1: "net (request_of fmt self) = RequestException
    \<longrightarrow> resolved (update ucd fmt net self)
        \<and> has_level ERROR (logged (update ucd fmt net self))"
    by (intro impI update_failed_fetch) blast
  have a2: "net (request_of fmt self) = Response status_code reply_body
      \<and> raise_for_status status_code
    \<longrightarrow> resolved (update ucd fmt net self)
        \<and> has_level ERROR (logged (update ucd fmt net self))"
    by (intro impI update_failed_fetch) blast
  have a3: "net (request_of fmt self) = Response status_code None
    \<longrightarrow> resolved (update ucd fmt net self)
        \<and> has_level ERROR (logged (update ucd fmt net self))"
    by (intro impI update_failed_fetch) blast
  have a4: "net (request_of fmt self) = Response status_code (Some (PDict envelope))
      \<and> \<not> raise_for_status status_code
      \<and> envelope \<noteq> [] \<and> map_of envelope ''stations'' = None
    \<longrightarrow> resolved (update ucd fmt net self)
        \<and> has_level ERROR (logged (update ucd fmt net self))"
  proof
    assume "net (request_of fmt self) = Response status_code (Some (PDict envelope))
      \<and> \<not> raise_for_status status_code
      \<and> envelope \<noteq> [] \<and> map_of envelope ''stations'' = None"
    then have "update ucd fmt net self =
       \<lparr> final = self\<lparr>state := PNone, attributes := Map.empty\<rparr>,
         logged = [(ERROR, ''Erroneous result found when expecting list of stations: %s'')],
         sent = [request_of fmt self], raised = None \<rparr>"
      by (intro update_missing_stations) blast+
    then show "resolved (update ucd fmt net self)
        \<and> has_level ERROR (logged (update ucd fmt net self))"
      by (simp add: resolved_def cleared_def has_level_def)
  qed
  have a5: "net (request_of fmt self) = Response status_code (Some (PDict envelope))
      \<and> \<not> raise_for_status status_code
      \<and> map_of envelope ''stations'' = Some (PList [])
    \<longrightarrow> resolved (update ucd fmt net self)
        \<and> logged (update ucd fmt net self) = []"
  proof
    assume "net (request_of fmt self) = Response status_code (Some (PDict envelope))
      \<and> \<not> raise_for_status status_code
      \<and> map_of envelope ''stations'' = Some (PList [])"
    then have "update ucd fmt net self =
       \<lparr> final = self\<lparr>state := PNone, attributes := Map.empty\<rparr>,
         logged = [], sent = [request_of fmt self], raised = None \<rparr>"
      by (intro update_empty_stations) blast+
    then show "resolved (update ucd fmt net self) \<and> logged (update ucd fmt net self) = []"
      by (simp add: resolved_def cleared_def)
  qed
  have b1: "rest_net (rest_request (rest rest_self)) = None
      \<or> rest_net (rest_request (rest rest_self)) = Some []
    \<longrightarrow> resolved (update_rest ucd loads rest_net rest_self)
        \<and> has_level WARNING (logged (update_rest ucd loads rest_net rest_self))"
  proof
    assume "rest_net (rest_request (rest rest_self)) = None
      \<or> rest_net (rest_request (rest rest_self)) = Some []"
    from update_rest_no_data[where net = rest_net and self = rest_self, OF this]
    show "resolved (update_rest ucd loads rest_net rest_self)
        \<and> has_level WARNING (logged (update_rest ucd loads rest_net rest_self))"
      by (simp add: resolved_def cleared_def has_level_def)
  qed
  have b2: "rest_net (rest_request (rest rest_self)) = Some body \<and> body \<noteq> []
      \<and> loads body = None
    \<longrightarrow> resolved (update_rest ucd loads rest_net rest_self)
        \<and> has_level WARNING (logged (update_rest ucd loads rest_net rest_self))"
  proof
    assume h: "rest_net (rest_request (rest rest_self)) = Some body \<and> body \<noteq> []
      \<and> loads body = None"
    have "update_rest ucd loads rest_net rest_self =
       \<lparr> final = rest_self\<lparr>state := PNone, attributes := Map.empty,
                        rest := (rest rest_self)\<lparr>data := Some body\<rparr>\<rparr>,
         logged = [(WARNING, ''REST result could not be parsed as JSON''),
                   (DEBUG, ''Erroneous JSON: %s'')],
         sent = [rest_request (rest rest_self)], raised = None \<rparr>"
      by (rule update_rest_unparsed) (use h in simp_all)
    then show "resolved (update_rest ucd loads rest_net rest_self)
        \<and> has_level WARNING (logged (update_rest ucd loads rest_net rest_self))"
      by (simp add: resolved_def cleared_def has_level_def)
  qed
  have b3: "rest_net (rest_request (rest rest_self)) = Some body \<and> body \<noteq> []
      \<and> loads body = Some (PDict rest_envelope)
      \<and> map_of rest_envelope ''ok'' = Some ok \<and> truthy ok
      \<and> map_of rest_envelope ''stations'' = Some (PList [])
    \<longrightarrow> resolved (update_rest ucd loads rest_net rest_self)
        \<and> \<not> has_level ERROR (logged (update_rest ucd loads rest_net rest_self))
        \<and> \<not> has_level WARNING (logged (update_rest ucd loads rest_net rest_self))"
  proof
    assume h: "rest_net (rest_request (rest rest_self)) = Some body \<and> body \<noteq> []
      \<and> loads body = Some (PDict rest_envelope)
      \<and> map_of rest_envelope ''ok'' = Some ok \<and> truthy ok
      \<and> map_of rest_envelope ''stations'' = Some (PList [])"
    have "update_rest ucd loads rest_net rest_self =
       \<lparr> final = rest_self\<lparr>state := PNone, attributes := Map.empty,
                        rest := (rest rest_self)\<lparr>data := Some body\<rparr>\<rparr>,
         logged = [(DEBUG, ''Received stations: %s'')], sent = [rest_request (rest rest_self)],
         raised = None \<rparr>"
      by (rule update_rest_empty_stations[where ok = ok and envelope = rest_envelope])
         (use h in simp_all)
    then show "resolved (update_rest ucd loads rest_net rest_self)
        \<and> \<not> has_level ERROR (logged (update_rest ucd loads rest_net rest_self))
        \<and> \<not> has_level WARNING (logged (update_rest ucd loads rest_net rest_self))"
      by (simp add: resolved_def cleared_def has_level_def)
  qed
  from a1 a2 a3 a4 a5 b1 b2 b3 show ?thesis
    by (intro conjI)
qed

theorem every_failure_resolves_the_cycle_witness:
  "(resolved (update ucd_excerpt id (always RequestException) demo_sensor)
      \<and> has_level ERROR (logged (update ucd_excerpt id (always RequestException) demo_sensor)))
   \<and> (raise_for_status 503
      \<and> resolved (update ucd_excerpt id (always (Response 503 None)) demo_sensor)
      \<and> has_level ERROR (logged (update ucd_excerpt id (always (Response 503 None)) demo_sensor)))
   \<and> (resolved (update ucd_excerpt id (always (Response 200 None)) demo_sensor)
      \<and> has_level ERROR (logged (update ucd_excerpt id (always (Response 200 None)) demo_sensor)))
   \<and> (map_of [(''ok'', PBool True)] ''stations'' = None
      \<and> resolved (update ucd_excerpt id
           (always (Response 200 (Some (PDict [(''ok'', PBool True)])))) demo_sensor)
      \<and> has_level ERROR (logged (update ucd_excerpt id
           (always (Response 200 (Some (PDict [(''ok'', PBool True)])))) demo_sensor)))
   \<and> (map_of (demo_envelope True []) ''stations'' = Some (PList [])
      \<and> resolved (update ucd_excerpt id
           (always (Response 200 (Some (PDict (demo_envelope True []))))) demo_sensor)
      \<and> logged (update ucd_excerpt id
           (always (Response 200 (Some (PDict (demo_envelope True []))))) demo_sensor) = [])
   \<and> (resolved (update_rest ucd_excerpt decode_ok_false (always None) demo_rest_sensor)
      \<and> has_level WARNING
           (logged (update_rest ucd_excerpt decode_ok_false (always None) demo_rest_sensor)))
   \<and> (decode_ok_false demo_body = None
      \<and> resolved (update_rest ucd_excerpt decode_ok_false (always (Some demo_body))
           demo_rest_sensor)
      \<and> has_level WARNING (logged (update_rest ucd_excerpt decode_ok_false
           (always (Some demo_body)) demo_rest_sensor)))
   \<and> (resolved (update_rest ucd_excerpt (always (Some (PDict (demo_envelope True []))))
           (always (Some demo_body)) demo_rest_sensor)
      \<and> \<not> has_level WARNING (logged (update_rest ucd_excerpt
           (always (Some (PDict (demo_envelope True [])))) (always (Some demo_body))
           demo_rest_sensor)))"
proof -
  note t = every_failure_resolves_the_cycle[where ucd = ucd_excerpt and fmt = id
      and self = demo_sensor and rest_self = demo_rest_sensor]
  have s: "raise_for_status 503" "\<not> raise_for_status 200"
    by (simp_all add: raise_for_status_def)
  have m: "map_of [(''ok'', PBool True)] ''stations'' = None"
    "map_of (demo_envelope True []) ''stations'' = Some (PList [])"
    "map_of (demo_envelope True []) ''ok'' = Some (PBool True)"
    by (simp_all add: demo_envelope_def)
  have d: "decode_ok_false demo_body = None" "demo_body \<noteq> []"
    by (simp_all add: decode_ok_false_def demo_body_def ok_false_text_def ascii_def)
  from t[where net = "always RequestException"]
  have c1: "resolved (update ucd_excerpt id (always RequestException) demo_sensor)
      \<and> has_level ERROR (logged (update ucd_excerpt id (always RequestException) demo_sensor))"
    by (simp add: always_def)
  from t[where net = "always (Response 503 None)" and status_code = 503 and reply_body = None] s
  have c2: "resolved (update ucd_excerpt id (always (Response 503 None)) demo_sensor)
      \<and> has_level ERROR (logged (update ucd_excerpt id (always (Response 503 None)) demo_sensor))"
    by (simp add: always_def)
  from t[where net = "always (Response 200 None)" and status_code = 200]
  have c3: "resolved (update ucd_excerpt id (always (Response 200 None)) demo_sensor)
      \<and> has_level ERROR (logged (update ucd_excerpt id (always (Response 200 None)) demo_sensor))"
    by (simp add: always_def)
  from t[where net = "always (Response 200 (Some (PDict [(''ok'', PBool True)])))"
      and status_code = 200 and envelope = "[(''ok'', PBool True)]"] s m
  have c4: "resolved (update ucd_excerpt id
           (always (Response 200 (Some (PDict [(''ok'', PBool True)])))) demo_sensor)
      \<and> has_level ERROR (logged (update ucd_excerpt id
           (always (Response 200 (Some (PDict [(''ok'', PBool True)])))) demo_sensor))"
    by (simp add: always_def)
  from t[where net = "always (Response 200 (Some (PDict (demo_envelope True []))))"
      and status_code = 200 and envelope = "demo_envelope True []"] s m
  have c5: "resolved (update ucd_excerpt id
           (always (Response 200 (Some (PDict (demo_envelope True []))))) demo_sensor)
      \<and> logged (update ucd_excerpt id
           (always (Response 200 (Some (PDict (demo_envelope True []))))) demo_sensor) = []"
    by (simp add: always_def)
  from t[where rest_net = "always None" and loads = decode_ok_false]
  have c6: "resolved (update_rest ucd_excerpt decode_ok_false (always None) demo_rest_sensor)
      \<and> has_level WARNING
           (logged (update_rest ucd_excerpt decode_ok_false (always None) demo_rest_sensor))"
    by (simp add: always_def)
  from t[where rest_net = "always (Some demo_body)" and loads = decode_ok_false
      and body = demo_body] d
  have c7: "resolved (update_rest ucd_excerpt decode_ok_false (always (Some demo_body))
           demo_rest_sensor)
      \<and> has_level WARNING (logged (update_rest ucd_excerpt decode_ok_false
           (always (Some demo_body)) demo_rest_sensor))"
    by (simp add: always_def)
  from t[where rest_net = "always (Some demo_body)"
      and loads = "always (Some (PDict (demo_envelope True [])))"
      and body = demo_body and rest_envelope = "demo_envelope True []" and ok = "PBool True"] d m
  have c8: "resolved (update_rest ucd_excerpt (always (Some (PDict (demo_envelope True []))))
           (always (Some demo_body)) demo_rest_sensor)
      \<and> \<not> has_level WARNING (logged (update_rest ucd_excerpt
           (always (Some (PDict (demo_envelope True [])))) (always (Some demo_body))
           demo_rest_sensor))"
    by (simp add: always_def)
  from s m d c1 c2 c3 c4 c5 c6 c7 c8 show ?thesis by blast
qed

theorem empty_station_list_not_logged_counterexample:
  "logged (update ucd_excerpt id
      (always (Response 200 (Some (PDict (demo_envelope True []))))) demo_sensor) = []"
  by (simp add: run_simps demo_simps)

section \<open>Title-casing twice\<close>

text \<open>
  C8, as amended. Title-casing is idempotent on every string of stable characters: the
  string holds no U+03A3, and title-casing either expansion of each of its characters
  gives the expansion back and ends on a cased code point exactly when the character is
  cased. The ASCII and the German letters, sharp s included, are stable. (It is not
  idempotent on every string: the title-case expansion of U+01F0 ends in the uncased
  U+030C, so a letter after it is lower-cased by the first pass and upper-cased by the
  second.)
\<close>

theorem title_idempotent_on_stable_strings:
  "list_all (stable_char ucd) s \<Longrightarrow> title ucd (title ucd s) = title ucd s"
  by (rule title_idem_stable)

theorem title_idempotent_on_stable_strings_witness:
  "list_all (stable_char ucd_excerpt) demo_street
   \<and> title ucd_excerpt (title ucd_excerpt demo_street) = title ucd_excerpt demo_street"
proof -
  have h: "list_all (stable_char ucd_excerpt) demo_street"
    by (simp add: demo_street_def stable_char_def seg_stable_def ascii_def ucd_excerpt_def)
  from h title_idempotent_on_stable_strings[OF h] show ?thesis by simp
qed

theorem title_not_idempotent_counterexample:
  "title ucd_excerpt [0x1F0, 0x61] = [0x4A, 0x30C, 0x61]
   \<and> title ucd_excerpt (title ucd_excerpt [0x1F0, 0x61]) = [0x4A, 0x30C, 0x41]
   \<and> title ucd_excerpt (title ucd_excerpt [0x1F0, 0x61]) \<noteq> title ucd_excerpt [0x1F0, 0x61]"
  by (simp add: title_def ucd_excerpt_def lower_ucs4_def)

section \<open>The throttle\<close>






section \<open>The request\<close>



















end
